theory Spec2Isabelle
  imports Main "HOL-Library.Word"
begin

unbundle bit_operations_syntax

section \<open>Field tags (decode.go: tag, parseTag)\<close>

text \<open>
  Go strings and byte slices are both sequences of bytes; they are modelled as
  \<open>string\<close> (a list of 8-bit characters).
\<close>

type_synonym bytes = string

definition Base16 :: string where "Base16 = ''base16''"
definition Base64 :: string where "Base64 = ''base64''"
definition Base85 :: string where "Base85 = ''base85''"

record tag =
  Encoding :: string
  Name :: string
  Omit :: bool
  OmitEmpty :: bool

text \<open>\<open>strings.Split(t, sep)\<close> for a one-character separator: n separators give n + 1 pieces.\<close>

fun Split :: "string \<Rightarrow> char \<Rightarrow> string list" where
  "Split [] sep = [[]]"
| "Split (c # cs) sep =
     (if c = sep then [] # Split cs sep
      else (case Split cs sep of [] \<Rightarrow> [[c]] | p # ps \<Rightarrow> (c # p) # ps))"

text \<open>The body of the \<open>for _, v := range values[1:]\<close> loop of parseTag.\<close>

definition tag_option :: "string \<Rightarrow> bool \<times> string \<Rightarrow> bool \<times> string" where
  "tag_option v st =
     (if v = ''omitempty'' then (True, snd st)
      else if v = Base16 \<or> v = Base64 \<or> v = Base85 then (fst st, v)
      else st)"

definition parseTag :: "string \<Rightarrow> string \<Rightarrow> tag" where
  "parseTag t name =
     (if t = '''' then \<lparr>Encoding = '''', Name = name, Omit = False, OmitEmpty = False\<rparr>
      else
        let values = Split t CHR '','' in
        if t = ''-'' then \<lparr>Encoding = '''', Name = name, Omit = True, OmitEmpty = False\<rparr>
        else
          let name' = (if hd values \<noteq> '''' then hd values else name);
              st = (if length values > 1 then fold tag_option (tl values) (False, Base16)
                    else (False, Base16))
          in \<lparr>Encoding = snd st, Name = name', Omit = False, OmitEmpty = fst st\<rparr>)"

section \<open>Host types, errors and results\<close>

text \<open>
  The destination types the engine can meet through \<open>reflect\<close>. The named types are the ones
  the library declares or inspects: \<open>llsd.URL\<close> (a string), \<open>llsd.UUID\<close> (a 16-byte array)
  and \<open>time.Time\<close> (a struct); \<open>url.URL\<close> is a struct like any other, with exported
  fields. User-defined named types are not modelled. \<open>TInterface\<close> is the empty interface \<open>any\<close>;
  \<open>TOther\<close> stands for a type of one of the remaining kinds (complex, chan, func, ...).
  A struct field carries its name and the values of its \<open>llsd\<close> and \<open>json\<close> tags.
\<close>

datatype gotype =
    TBool | TInt | TInt8 | TInt16 | TInt32 | TInt64
  | TUint | TUint8 | TUint16 | TUint32 | TUint64 | TUintptr
  | TFloat32 | TFloat64 | TString | TURL | TUUID | TTime | TInterface
  | TPointer gotype | TSlice gotype | TArray nat gotype | TMap gotype gotype
  | TStruct "(string \<times> string \<times> string \<times> gotype) list"
  | TOther string

datatype error =
    EOF
  | errorString string
  | InvalidLLSDError string int
  | UnmarshalTypeError string gotype int
  | MarshalTypeError gotype
  | NumError string string string
  | InvalidByteError char
  | ErrLength
  | ExternalError string

text \<open>\<open>(e *InvalidLLSDError) Error()\<close>.\<close>

definition InvalidLLSDError_Error :: "string \<Rightarrow> string" where
  "InvalidLLSDError_Error Problem = ''Invalid LLSD: '' @ Problem"

text \<open>
  A Go function returning \<open>(value, error)\<close> returns both; a run-time panic (an index out of
  range, a misuse of \<open>reflect\<close>) is a third outcome, kept apart from errors.
\<close>

datatype 'a ret = Ret 'a "error option" | Panic string

text \<open>\<open>time.Time\<close>, as far as the library reads it: Unix seconds and nanoseconds.\<close>

datatype gotime = Time "64 word" nat

definition time_Unix :: "64 word \<Rightarrow> nat \<Rightarrow> gotime" where
  "time_Unix sec nsec = Time sec nsec"

fun Unix :: "gotime \<Rightarrow> 64 word" where
  "Unix (Time sec nsec) = sec"

section \<open>Scalar types and tokens (the Go source in the second half of README.md)\<close>

datatype ScalarType =
  Undefined | Boolean | Integer | Real | UUIDType | String | Binary | Date | URI

fun ScalarType_String :: "ScalarType \<Rightarrow> string" where
  "ScalarType_String Undefined = ''undef''"
| "ScalarType_String Boolean = ''boolean''"
| "ScalarType_String Integer = ''integer''"
| "ScalarType_String Real = ''real''"
| "ScalarType_String UUIDType = ''uuid''"
| "ScalarType_String String = ''string''"
| "ScalarType_String Binary = ''binary''"
| "ScalarType_String Date = ''date''"
| "ScalarType_String URI = ''uri''"

record Scalar =
  Type :: ScalarType
  Data :: bytes
  Attr :: "string \<rightharpoonup> string"

text \<open>
  \<open>type Token any\<close>: the token structs, \<open>Key\<close>, \<open>Scalar\<close>, and any other Go value
  (\<open>OtherToken\<close> with the name of its type; the tests feed the engine the integer 1).
  \<open>NilToken\<close> is the nil interface a scanner returns beside an error.
\<close>

datatype Token =
    ArrayStart | ArrayEnd | MapStart | MapEnd
  | Key bytes
  | ScalarToken Scalar
  | DocumentStart | DocumentEnd
  | OtherToken string
  | NilToken

text \<open>\<open>reflect.TypeOf(tok).Name()\<close>, for the tokens the engine reports.\<close>

fun Token_TypeName :: "Token \<Rightarrow> string" where
  "Token_TypeName ArrayStart = ''ArrayStart''"
| "Token_TypeName ArrayEnd = ''ArrayEnd''"
| "Token_TypeName MapStart = ''MapStart''"
| "Token_TypeName MapEnd = ''MapEnd''"
| "Token_TypeName (Key k) = ''Key''"
| "Token_TypeName (ScalarToken s) = ''Scalar''"
| "Token_TypeName DocumentStart = ''DocumentStart''"
| "Token_TypeName DocumentEnd = ''DocumentEnd''"
| "Token_TypeName (OtherToken n) = n"
| "Token_TypeName NilToken = []"

section \<open>Host values as \<open>reflect\<close> sees them\<close>

text \<open>
  Integers are machine words of their width (\<open>int\<close> and \<open>uint\<close> are 64 bits wide), floats
  are their IEEE 754 bit patterns. A slice is its backing array and its length (the
  capacity is the length of the backing array). A map is nil (\<open>None\<close>) or a list of
  entries under string keys. A struct value lists, per field, the name, the \<open>llsd\<close> tag,
  the \<open>json\<close> tag and the value.
\<close>

datatype goval =
    VBool bool
  | VInt "64 word" | VInt8 "8 word" | VInt16 "16 word" | VInt32 "32 word" | VInt64 "64 word"
  | VUint "64 word" | VUint8 "8 word" | VUint16 "16 word" | VUint32 "32 word"
  | VUint64 "64 word" | VUintptr "64 word"
  | VFloat32 "32 word" | VFloat64 "64 word"
  | VString string | VURL string | VUUID bytes | VTime gotime
  | VInterface "goval option"
  | VPointer gotype "goval option"
  | VSlice gotype "goval list" nat
  | VArray gotype "goval list"
  | VMap gotype gotype "(string \<times> goval) list option"
  | VStruct "(string \<times> string \<times> string \<times> goval) list"
  | VOther string

fun type_of :: "goval \<Rightarrow> gotype" where
  "type_of (VBool b) = TBool"
| "type_of (VInt w) = TInt" | "type_of (VInt8 w) = TInt8" | "type_of (VInt16 w) = TInt16"
| "type_of (VInt32 w) = TInt32" | "type_of (VInt64 w) = TInt64"
| "type_of (VUint w) = TUint" | "type_of (VUint8 w) = TUint8" | "type_of (VUint16 w) = TUint16"
| "type_of (VUint32 w) = TUint32" | "type_of (VUint64 w) = TUint64"
| "type_of (VUintptr w) = TUintptr"
| "type_of (VFloat32 w) = TFloat32" | "type_of (VFloat64 w) = TFloat64"
| "type_of (VString s) = TString" | "type_of (VURL s) = TURL" | "type_of (VUUID s) = TUUID"
| "type_of (VTime t) = TTime"
| "type_of (VInterface x) = TInterface"
| "type_of (VPointer t x) = TPointer t"
| "type_of (VSlice t xs n) = TSlice t"
| "type_of (VArray t xs) = TArray (length xs) t"
| "type_of (VMap k e m) = TMap k e"
| "type_of (VStruct fs) = TStruct (map (\<lambda>(n, l, j, v). (n, l, j, type_of v)) fs)"
| "type_of (VOther n) = TOther n"

text \<open>The zero value of a type (\<open>reflect.New(t).Elem()\<close>, \<open>reflect.Zero\<close>).\<close>

fun zero :: "gotype \<Rightarrow> goval" where
  "zero TBool = VBool False"
| "zero TInt = VInt 0" | "zero TInt8 = VInt8 0" | "zero TInt16 = VInt16 0"
| "zero TInt32 = VInt32 0" | "zero TInt64 = VInt64 0"
| "zero TUint = VUint 0" | "zero TUint8 = VUint8 0" | "zero TUint16 = VUint16 0"
| "zero TUint32 = VUint32 0" | "zero TUint64 = VUint64 0" | "zero TUintptr = VUintptr 0"
| "zero TFloat32 = VFloat32 0" | "zero TFloat64 = VFloat64 0"
| "zero TString = VString []" | "zero TURL = VURL []"
| "zero TUUID = VUUID (replicate 16 (CHR 0x00))"
| "zero TTime = VTime (Time (- 62135596800) 0)"
| "zero TInterface = VInterface None"
| "zero (TPointer t) = VPointer t None"
| "zero (TSlice t) = VSlice t [] 0"
| "zero (TArray n t) = VArray t (replicate n (zero t))"
| "zero (TMap k e) = VMap k e None"
| "zero (TStruct fs) = VStruct (map (\<lambda>(n, l, j, t). (n, l, j, zero t)) fs)"
| "zero (TOther n) = VOther n"

datatype Kind =
    reflect_Bool | reflect_Int | reflect_Int8 | reflect_Int16 | reflect_Int32 | reflect_Int64
  | reflect_Uint | reflect_Uint8 | reflect_Uint16 | reflect_Uint32 | reflect_Uint64
  | reflect_Uintptr | reflect_Float32 | reflect_Float64 | reflect_String
  | reflect_Interface | reflect_Pointer | reflect_Slice | reflect_Array | reflect_Map
  | reflect_Struct | reflect_Other

fun Type_Kind :: "gotype \<Rightarrow> Kind" where
  "Type_Kind TBool = reflect_Bool"
| "Type_Kind TInt = reflect_Int" | "Type_Kind TInt8 = reflect_Int8"
| "Type_Kind TInt16 = reflect_Int16" | "Type_Kind TInt32 = reflect_Int32"
| "Type_Kind TInt64 = reflect_Int64"
| "Type_Kind TUint = reflect_Uint" | "Type_Kind TUint8 = reflect_Uint8"
| "Type_Kind TUint16 = reflect_Uint16" | "Type_Kind TUint32 = reflect_Uint32"
| "Type_Kind TUint64 = reflect_Uint64" | "Type_Kind TUintptr = reflect_Uintptr"
| "Type_Kind TFloat32 = reflect_Float32" | "Type_Kind TFloat64 = reflect_Float64"
| "Type_Kind TString = reflect_String" | "Type_Kind TURL = reflect_String"
| "Type_Kind TUUID = reflect_Array" | "Type_Kind TTime = reflect_Struct"
| "Type_Kind TInterface = reflect_Interface"
| "Type_Kind (TPointer t) = reflect_Pointer"
| "Type_Kind (TSlice t) = reflect_Slice"
| "Type_Kind (TArray n t) = reflect_Array"
| "Type_Kind (TMap k e) = reflect_Map"
| "Type_Kind (TStruct fs) = reflect_Struct"
| "Type_Kind (TOther n) = reflect_Other"

definition Value_Kind :: "goval \<Rightarrow> Kind" where
  "Value_Kind v = Type_Kind (type_of v)"

section \<open>External collaborators\<close>

text \<open>
  The codecs of the Go standard library that the library calls and user hooks are not
  part of the repository; the model takes them as parameters, gathered in one record.
  \<open>ParseFloat\<close> is \<open>strconv.ParseFloat(s, 64)\<close>, \<open>time_Parse\<close> is
  \<open>time.Parse(time.RFC3339, s)\<close>; the two decoders return the bytes they wrote and the
  error; \<open>OverflowFloat32\<close> is \<open>reflect.Value.OverflowFloat\<close> on a \<open>float32\<close>; the three
  conversions are Go's \<open>float32(x)\<close>, \<open>float64(f)\<close> and \<open>float64(i)\<close>; \<open>Sprintf_f\<close> is the
  verb \<open>%f\<close>, \<open>time_Format\<close> is \<open>Format(time.RFC3339)\<close>, \<open>Quote\<close> is the verb \<open>%q\<close>,
  \<open>EscapeText\<close> is \<open>xml.EscapeText\<close>. A hook is found from the dynamic value of the destination (\<open>v.Interface().(TextUnmarshaler)\<close>): \<open>None\<close> when
  the value does not implement the interface, otherwise the method, which returns the
  updated destination and its error.
\<close>

record ext =
  ParseFloat :: "string \<Rightarrow> 64 word \<times> error option"
  time_Parse :: "string \<Rightarrow> gotime \<times> error option"
  base64_Decode :: "bytes \<Rightarrow> bytes \<times> error option"
  ascii85_Decode :: "bytes \<Rightarrow> bytes \<times> error option"
  OverflowFloat32 :: "64 word \<Rightarrow> bool"
  float32_of_float64 :: "64 word \<Rightarrow> 32 word"
  float64_of_float32 :: "32 word \<Rightarrow> 64 word"
  float64_of_int64 :: "64 word \<Rightarrow> 64 word"
  TextUnmarshaler :: "goval \<Rightarrow> (bytes \<Rightarrow> goval \<times> error option) option"
  BinaryUnmarshaler :: "goval \<Rightarrow> (bytes \<Rightarrow> goval \<times> error option) option"
  TextMarshaler :: "goval \<Rightarrow> (ScalarType \<times> string \<times> error option) option"
  EscapeText :: "bytes \<Rightarrow> string"
  ascii85_Encode :: "bytes \<Rightarrow> bytes"
  Sprintf_f :: "64 word \<Rightarrow> string"
  time_Format :: "gotime \<Rightarrow> string"
  Quote :: "string \<Rightarrow> string"

section \<open>Standard-library functions modelled exactly\<close>

text \<open>\<open>binary.BigEndian.Uint32\<close> and \<open>Uint64\<close>: \<open>None\<close> is the index-out-of-range panic.\<close>

fun BigEndian_Uint32 :: "bytes \<Rightarrow> 32 word option" where
  "BigEndian_Uint32 (b0 # b1 # b2 # b3 # rest) =
     Some (of_char b3 OR push_bit 8 (of_char b2) OR push_bit 16 (of_char b1)
           OR push_bit 24 (of_char b0))"
| "BigEndian_Uint32 bs = None"

fun BigEndian_Uint64 :: "bytes \<Rightarrow> 64 word option" where
  "BigEndian_Uint64 (b0 # b1 # b2 # b3 # b4 # b5 # b6 # b7 # rest) =
     Some (of_char b7 OR push_bit 8 (of_char b6) OR push_bit 16 (of_char b5)
           OR push_bit 24 (of_char b4) OR push_bit 32 (of_char b3) OR push_bit 40 (of_char b2)
           OR push_bit 48 (of_char b1) OR push_bit 56 (of_char b0))"
| "BigEndian_Uint64 bs = None"

text \<open>\<open>encoding/hex\<close>: the reverse table, \<open>Decode\<close> (bytes written, error) and \<open>DecodedLen\<close>.\<close>

definition fromHexChar :: "char \<Rightarrow> nat option" where
  "fromHexChar c =
     (let n = (of_char c :: nat) in
      if 48 \<le> n \<and> n \<le> 57 then Some (n - 48)
      else if 97 \<le> n \<and> n \<le> 102 then Some (n - 87)
      else if 65 \<le> n \<and> n \<le> 70 then Some (n - 55)
      else None)"

fun hex_Decode :: "bytes \<Rightarrow> bytes \<times> error option" where
  "hex_Decode [] = ([], None)"
| "hex_Decode [p] =
     (case fromHexChar p of None \<Rightarrow> ([], Some (InvalidByteError p))
      | Some a \<Rightarrow> ([], Some ErrLength))"
| "hex_Decode (p # q # rest) =
     (case fromHexChar p of None \<Rightarrow> ([], Some (InvalidByteError p))
      | Some a \<Rightarrow>
          (case fromHexChar q of None \<Rightarrow> ([], Some (InvalidByteError q))
           | Some b \<Rightarrow>
               (case hex_Decode rest of (out, e) \<Rightarrow> (char_of (a * 16 + b) # out, e))))"

definition hex_DecodedLen :: "nat \<Rightarrow> nat" where
  "hex_DecodedLen x = x div 2"

text \<open>A destination buffer of \<open>n\<close> zero bytes after \<open>out\<close> was written at its start.\<close>

definition written :: "nat \<Rightarrow> bytes \<Rightarrow> bytes" where
  "written n out = take n out @ replicate (n - length out) (CHR 0x00)"

text \<open>
  \<open>strconv.Atoi\<close> on a 64-bit platform: an optional sign and decimal digits; a syntax
  error gives 0, a range error gives the nearest bound.
\<close>

definition is_digit :: "char \<Rightarrow> bool" where
  "is_digit c = (48 \<le> (of_char c :: nat) \<and> (of_char c :: nat) \<le> 57)"

definition decimal_value :: "string \<Rightarrow> nat" where
  "decimal_value s = fold (\<lambda>c n. n * 10 + ((of_char c :: nat) - 48)) s 0"

definition Atoi :: "string \<Rightarrow> 64 word \<times> error option" where
  "Atoi s =
     (let body = (if s \<noteq> [] \<and> (hd s = CHR ''-'' \<or> hd s = CHR ''+'') then tl s else s);
          n = decimal_value body
      in if body = [] \<or> \<not> list_all is_digit body
         then (0, Some (NumError ''Atoi'' s ''invalid syntax''))
         else if s \<noteq> [] \<and> hd s = CHR ''-''
         then (if n > 2 ^ 63 then (word_of_int (- (2 ^ 63)),
                                  Some (NumError ''Atoi'' s ''value out of range''))
               else (word_of_int (- int n), None))
         else (if n \<ge> 2 ^ 63 then (word_of_int (2 ^ 63 - 1),
                                   Some (NumError ''Atoi'' s ''value out of range''))
               else (word_of_nat n, None)))"

section \<open>Scalar decoders (the Go source in the second half of README.md)\<close>

definition zero_UUID :: bytes where
  "zero_UUID = replicate 16 (CHR 0x00)"

definition textDecoder_real :: "ext \<Rightarrow> bytes \<Rightarrow> (64 word) ret" where
  "textDecoder_real x c =
     (if length c = 0 then Ret 0 None
      else (case ParseFloat x c of
              (f, Some err) \<Rightarrow> Ret 0 (Some err)
            | (f, None) \<Rightarrow> Ret f None))"

text \<open>
  For a text of fewer than 16 decoded bytes the slice expression \<open>h[:16]\<close> reaches into
  the capacity of the conversion buffer; the model reports the panic of a buffer that
  is as long as the text.
\<close>

definition textDecoder_uuid :: "bytes \<Rightarrow> bytes ret" where
  "textDecoder_uuid c =
     (if length c = 0 then Ret zero_UUID None
      else (let s = filter (\<lambda>ch. ch \<noteq> CHR ''-'') c in
            case hex_Decode s of
              (h, Some err) \<Rightarrow> Ret zero_UUID (Some err)
            | (h, None) \<Rightarrow>
                if length s < 16 then Panic ''slice bounds out of range''
                else Ret (take 16 (h @ drop (length h) s)) None))"

definition textDecoder_integer :: "bytes \<Rightarrow> (64 word) ret" where
  "textDecoder_integer c = (case Atoi c of (i, err) \<Rightarrow> Ret i err)"

definition textDecoder_binary :: "ext \<Rightarrow> bytes \<Rightarrow> string \<Rightarrow> bytes ret" where
  "textDecoder_binary x c encoding =
     (if length c = 0 then Ret c None
      else if encoding = Base16 \<or> encoding = []
      then (case hex_Decode c of (out, err) \<Rightarrow> Ret (written (hex_DecodedLen (length c)) out) err)
      else if encoding = Base64
      then (case base64_Decode x c of
              (out, err) \<Rightarrow> Ret (written (length c div 4 * 3) out) err)
      else if encoding = Base85
      then (case ascii85_Decode x c of
              (out, err) \<Rightarrow> Ret (written ((length c + 3) div 4 * 5) out) err)
      else Ret [] (Some (errorString (''Unknown encoding '' @ [CHR 0x22] @ encoding @ [CHR 0x22]))))"

definition textDecoder_boolean :: "bytes \<Rightarrow> bool ret" where
  "textDecoder_boolean c =
     (if length c = 0 then Ret False None
      else if c = ''1'' \<or> c = ''true'' then Ret True None
      else if c = ''0'' \<or> c = ''false'' then Ret False None
      else Ret False (Some (errorString (''Invalid boolean value '' @ c))))"

definition textDecoder_date :: "ext \<Rightarrow> bytes \<Rightarrow> gotime ret" where
  "textDecoder_date x c =
     (if length c = 0 then Ret (time_Unix 0 0) None
      else (case time_Parse x c of (t, err) \<Rightarrow> Ret t err))"

definition binaryDecoder_real :: "bytes \<Rightarrow> (64 word) ret" where
  "binaryDecoder_real b =
     (if length b = 0 then Ret 0 None
      else (case BigEndian_Uint64 b of
              None \<Rightarrow> Panic ''index out of range''
            | Some bits \<Rightarrow> Ret bits None))"

definition binaryDecoder_uuid :: "bytes \<Rightarrow> bytes ret" where
  "binaryDecoder_uuid b =
     (if length b = 0 then Ret zero_UUID None
      else if length b < 16 then Panic ''slice bounds out of range''
      else Ret (take 16 b) None)"

definition binaryDecoder_integer :: "bytes \<Rightarrow> (64 word) ret" where
  "binaryDecoder_integer b =
     (case BigEndian_Uint32 b of
        None \<Rightarrow> Panic ''index out of range''
      | Some bits \<Rightarrow> Ret (ucast bits) None)"

definition binaryDecoder_binary :: "bytes \<Rightarrow> string \<Rightarrow> bytes ret" where
  "binaryDecoder_binary b encoding = Ret b None"

definition binaryDecoder_boolean :: "bytes \<Rightarrow> bool ret" where
  "binaryDecoder_boolean b = Ret (length b > 1) None"

definition binaryDecoder_date :: "bytes \<Rightarrow> gotime ret" where
  "binaryDecoder_date b =
     (case binaryDecoder_integer b of
        Panic p \<Rightarrow> Panic p
      | Ret epoch (Some err) \<Rightarrow> Ret (time_Unix 0 0) (Some err)
      | Ret epoch None \<Rightarrow> Ret (time_Unix epoch 0) None)"

text \<open>The \<open>scalarDecoder\<close> interface and its two implementations.\<close>

datatype scalarDecoder = textDecoder | binaryDecoder

fun dec_real :: "ext \<Rightarrow> scalarDecoder \<Rightarrow> bytes \<Rightarrow> (64 word) ret" where
  "dec_real x textDecoder c = textDecoder_real x c"
| "dec_real x binaryDecoder c = binaryDecoder_real c"

fun dec_uuid :: "scalarDecoder \<Rightarrow> bytes \<Rightarrow> bytes ret" where
  "dec_uuid textDecoder c = textDecoder_uuid c"
| "dec_uuid binaryDecoder c = binaryDecoder_uuid c"

fun dec_integer :: "scalarDecoder \<Rightarrow> bytes \<Rightarrow> (64 word) ret" where
  "dec_integer textDecoder c = textDecoder_integer c"
| "dec_integer binaryDecoder c = binaryDecoder_integer c"

fun dec_binary :: "ext \<Rightarrow> scalarDecoder \<Rightarrow> bytes \<Rightarrow> string \<Rightarrow> bytes ret" where
  "dec_binary x textDecoder c encoding = textDecoder_binary x c encoding"
| "dec_binary x binaryDecoder c encoding = binaryDecoder_binary c encoding"

fun dec_date :: "ext \<Rightarrow> scalarDecoder \<Rightarrow> bytes \<Rightarrow> gotime ret" where
  "dec_date x textDecoder c = textDecoder_date x c"
| "dec_date x binaryDecoder c = binaryDecoder_date c"

fun dec_boolean :: "scalarDecoder \<Rightarrow> bytes \<Rightarrow> bool ret" where
  "dec_boolean textDecoder c = textDecoder_boolean c"
| "dec_boolean binaryDecoder c = binaryDecoder_boolean c"

section \<open>Binary scanner (binary_scan.go)\<close>

definition BinaryHeader :: string where
  "BinaryHeader = ''<?llsd/binary?>'' @ [CHR 0x0A]"

text \<open>
  \<open>(s *BinaryScanner) read(num)\<close> over a \<open>bytes.Reader\<close> holding \<open>r\<close>: the buffer has \<open>num\<close>
  bytes, zero where the input ran short; the reader reports \<open>io.EOF\<close> only when nothing
  is left; the offset always advances by \<open>num\<close>. The result is the buffer, the error, the
  remaining input and the new offset.
\<close>

definition read :: "bytes \<Rightarrow> int \<Rightarrow> nat \<Rightarrow> bytes \<times> error option \<times> bytes \<times> int" where
  "read r off num =
     (written num (take num r), (if r = [] then Some EOF else None), drop num r, off + int num)"

definition mkScalar :: "ScalarType \<Rightarrow> bytes \<Rightarrow> Token" where
  "mkScalar ty buf = ScalarToken \<lparr>Type = ty, Data = buf, Attr = Map.empty\<rparr>"

text \<open>
  An op that reads a 4-byte size and then that many bytes (ops b, s and k). The size
  buffer always has four bytes, so \<open>Uint32\<close> cannot panic here; its \<open>None\<close> branch only
  makes the definition total.
\<close>

definition read_sized :: "(bytes \<Rightarrow> Token) \<Rightarrow> bytes \<Rightarrow> int
    \<Rightarrow> (Token \<times> error option) \<times> bytes \<times> int" where
  "read_sized mk r off =
     (case read r off 4 of
        (buf, Some err, r1, off1) \<Rightarrow> ((NilToken, Some err), r1, off1)
      | (buf, None, r1, off1) \<Rightarrow>
          (case BigEndian_Uint32 buf of
             None \<Rightarrow> ((NilToken, None), r1, off1)
           | Some sz \<Rightarrow>
               (case read r1 off1 (unat sz) of
                  (buf2, err, r2, off2) \<Rightarrow> ((mk buf2, err), r2, off2))))"

text \<open>An op that reads a fixed number of bytes and returns its token beside the error.\<close>

definition read_fixed :: "nat \<Rightarrow> (bytes \<Rightarrow> Token) \<Rightarrow> bytes \<Rightarrow> int
    \<Rightarrow> (Token \<times> error option) \<times> bytes \<times> int" where
  "read_fixed n mk r off =
     (case read r off n of (buf, err, r1, off1) \<Rightarrow> ((mk buf, err), r1, off1))"

function BinaryScanner_loop :: "bytes \<Rightarrow> int \<Rightarrow> (Token \<times> error option) \<times> bytes \<times> int" where
  "BinaryScanner_loop [] off = ((NilToken, Some EOF), [], off + 1)"
| "BinaryScanner_loop (c # rest) off =
     (if c = CHR ''i'' then
        (case read rest (off + 1) 4 of
           (buf, Some err, r1, off1) \<Rightarrow> ((NilToken, Some err), r1, off1)
         | (buf, None, r1, off1) \<Rightarrow> ((mkScalar Integer buf, None), r1, off1))
      else if c = CHR ''r'' then read_fixed 8 (mkScalar Real) rest (off + 1)
      else if c = CHR ''u'' then read_fixed 16 (mkScalar UUIDType) rest (off + 1)
      else if c = CHR ''b'' then read_sized (mkScalar Binary) rest (off + 1)
      else if c = CHR ''s'' then read_sized (mkScalar String) rest (off + 1)
      else if c = CHR ''d'' then read_fixed 4 (mkScalar Date) rest (off + 1)
      else if c = CHR ''k'' then read_sized Key rest (off + 1)
      else if c = CHR ''{'' then read_fixed 4 (\<lambda>buf. MapStart) rest (off + 1)
      else if c = CHR ''}'' then ((MapEnd, None), rest, off + 1)
      else if c = CHR ''['' then read_fixed 4 (\<lambda>buf. ArrayStart) rest (off + 1)
      else if c = CHR '']'' then ((ArrayEnd, None), rest, off + 1)
      else if c = CHR ''1'' then ((mkScalar Boolean [CHR 0x01], None), rest, off + 1)
      else if c = CHR ''0'' then ((mkScalar Boolean [], None), rest, off + 1)
      else if c = CHR ''!'' then ((mkScalar Undefined [], None), rest, off + 1)
      else if c = CHR ''<'' \<and> off + 1 = 1 then
        (if rest = [] then ((NilToken, Some EOF), [], off + 16)
         else if CHR ''<'' # written 15 (take 15 rest) \<noteq> BinaryHeader
         then ((NilToken, Some (errorString (''Invalid LLSD: unrecognized header ''
                  @ CHR ''<'' # written 15 (take 15 rest)))), drop 15 rest, off + 16)
         else BinaryScanner_loop (drop 15 rest) (off + 16))
      else ((NilToken, Some (errorString (''Invalid LLSD '' @ [c]))), rest, off + 1))"
  by pat_completeness auto
termination
  by (relation "measure (\<lambda>(r, off). length r)") auto

section \<open>XML scanner (xml_scan.go and its second version)\<close>

text \<open>
  The streaming XML parser (\<open>encoding/xml\<close>) is outside the repository: the scanner is
  modelled over the parser's tokens, each paired with the input offset after it, and the
  error the parser ends with (\<open>io.EOF\<close> or a syntax error).
\<close>

datatype xmltoken =
    StartElement string "(string \<times> string) list"
  | EndElement string
  | CharData bytes
  | Comment bytes
  | ProcInst string bytes
  | Directive bytes

fun xmltoken_TypeName :: "xmltoken \<Rightarrow> string" where
  "xmltoken_TypeName (StartElement n a) = ''xml.StartElement''"
| "xmltoken_TypeName (EndElement n) = ''xml.EndElement''"
| "xmltoken_TypeName (CharData b) = ''xml.CharData''"
| "xmltoken_TypeName (Comment b) = ''xml.Comment''"
| "xmltoken_TypeName (ProcInst t b) = ''xml.ProcInst''"
| "xmltoken_TypeName (Directive b) = ''xml.Directive''"

type_synonym xmlinput = "(xmltoken \<times> int) list"

text \<open>\<open>s.dec.Token()\<close>: the next parser token, or the final error.\<close>

definition xml_Token :: "error \<Rightarrow> xmlinput \<Rightarrow> int
    \<Rightarrow> (xmltoken option \<times> error option) \<times> xmlinput \<times> int" where
  "xml_Token fin toks off =
     (case toks of
        [] \<Rightarrow> ((None, Some fin), [], off)
      | (t, pos) # rest \<Rightarrow> ((Some t, None), rest, pos))"

text \<open>\<open>charData\<close>: the inner text (\<open>None\<close> is the nil slice of a self-closing element).\<close>

definition charData :: "error \<Rightarrow> xmlinput \<Rightarrow> int
    \<Rightarrow> (bytes option \<times> error option) \<times> xmlinput \<times> int" where
  "charData fin toks off =
     (case xml_Token fin toks off of
        ((None, err), toks1, off1) \<Rightarrow> ((None, err), toks1, off1)
      | ((Some (CharData ty), err), toks1, off1) \<Rightarrow> ((Some ty, None), toks1, off1)
      | ((Some (EndElement n), err), toks1, off1) \<Rightarrow> ((None, None), toks1, off1)
      | ((Some t, err), toks1, off1) \<Rightarrow>
          ((None, Some (errorString (''Invalid LLSD: got unexpected '' @ xmltoken_TypeName t))),
           toks1, off1))"

definition scalarTypes :: "string \<rightharpoonup> ScalarType" where
  "scalarTypes = [''string'' \<mapsto> String, ''real'' \<mapsto> Real, ''uuid'' \<mapsto> UUIDType,
     ''integer'' \<mapsto> Integer, ''boolean'' \<mapsto> Boolean, ''undef'' \<mapsto> Undefined,
     ''binary'' \<mapsto> Binary, ''uri'' \<mapsto> URI, ''date'' \<mapsto> Date]"

text \<open>The loop \<open>for _, a := range ty.Attr { attr[a.Name.Local] = a.Value }\<close>.\<close>

definition attr_map :: "(string \<times> string) list \<Rightarrow> (string \<rightharpoonup> string)" where
  "attr_map attrs = fold (\<lambda>(k, v) m. m(k \<mapsto> v)) attrs Map.empty"

text \<open>Decimal rendering of an integer (\<open>%d\<close>, \<open>strconv.FormatInt(i, 10)\<close>).\<close>

fun decimal :: "nat \<Rightarrow> string" where
  "decimal n =
     (if n < 10 then [char_of (48 + n)]
      else decimal (n div 10) @ [char_of (48 + n mod 10)])"

declare decimal.simps [simp del]

definition FormatInt :: "int \<Rightarrow> string" where
  "FormatInt i = (if i < 0 then CHR ''-'' # decimal (nat (- i)) else decimal (nat i))"

text \<open>
  The repository holds two versions of \<open>XMLScanner.Token\<close>. The one in xml_scan.go
  (\<open>EmitDocument\<close>) returns \<open>DocumentStart\<close> and \<open>DocumentEnd\<close> for the \<open>llsd\<close> element and reads
  one more parser token after every scalar; the other one (\<open>SkipDocument\<close>) skips the \<open>llsd\<close>
  element and reads no further token after a self-closing scalar.
\<close>

datatype xml_variant = EmitDocument | SkipDocument

definition bytes_of :: "bytes option \<Rightarrow> bytes" where
  "bytes_of b = (case b of None \<Rightarrow> [] | Some c \<Rightarrow> c)"

fun XMLScanner_loop :: "xml_variant \<Rightarrow> error \<Rightarrow> xmlinput \<Rightarrow> int
    \<Rightarrow> (Token \<times> error option) \<times> xmlinput \<times> int" where
  "XMLScanner_loop var fin [] off = ((NilToken, Some fin), [], off)"
| "XMLScanner_loop var fin ((StartElement name attrs, pos) # rest) off =
     (if name = ''array'' then ((ArrayStart, None), rest, pos)
      else if name = ''map'' then ((MapStart, None), rest, pos)
      else if name = ''key'' then
        (case charData fin rest pos of
           ((b, Some err), toks1, off1) \<Rightarrow> ((Key (bytes_of b), Some err), toks1, off1)
         | ((b, None), toks1, off1) \<Rightarrow>
             (case xml_Token fin toks1 off1 of
                ((t, err), toks2, off2) \<Rightarrow> ((Key (bytes_of b), err), toks2, off2)))
      else if name = ''llsd'' then
        (if var = EmitDocument then ((DocumentStart, None), rest, pos)
         else XMLScanner_loop var fin rest pos)
      else
        (case scalarTypes name of
           None \<Rightarrow>
             ((NilToken, Some (errorString (''Unknown LLSD type '' @ [CHR 0x22] @ name
                  @ [CHR 0x22]))), rest, pos)
         | Some scalarType \<Rightarrow>
             (case charData fin rest pos of
                ((b, Some err), toks1, off1) \<Rightarrow> ((NilToken, Some err), toks1, off1)
              | ((b, None), toks1, off1) \<Rightarrow>
                  (if var = SkipDocument \<and> b = None
                   then ((ScalarToken \<lparr>Type = scalarType, Data = bytes_of b,
                            Attr = attr_map attrs\<rparr>, None), toks1, off1)
                   else
                     (case xml_Token fin toks1 off1 of
                        ((t, err), toks2, off2) \<Rightarrow>
                          ((ScalarToken \<lparr>Type = scalarType, Data = bytes_of b,
                              Attr = attr_map attrs\<rparr>, err), toks2, off2))))))"
| "XMLScanner_loop var fin ((EndElement name, pos) # rest) off =
     (if name = ''array'' then ((ArrayEnd, None), rest, pos)
      else if name = ''map'' then ((MapEnd, None), rest, pos)
      else if name = ''llsd'' then
        (if var = EmitDocument then ((DocumentEnd, None), rest, pos)
         else XMLScanner_loop var fin rest pos)
      else ((NilToken, Some (errorString (''Invalid LLSD: unexpected EndElement '' @ name))),
            rest, pos))"
| "XMLScanner_loop var fin ((Comment b, pos) # rest) off = XMLScanner_loop var fin rest pos"
| "XMLScanner_loop var fin ((ProcInst t b, pos) # rest) off = XMLScanner_loop var fin rest pos"
| "XMLScanner_loop var fin ((CharData b, pos) # rest) off = XMLScanner_loop var fin rest pos"
| "XMLScanner_loop var fin ((Directive b, pos) # rest) off =
     ((NilToken, Some (errorString (''Invalid LLSD. Unexpected xml.Directive at ''
          @ FormatInt pos))), rest, pos)"

section \<open>The TokenReader interface and the Unmarshaler (decode.go)\<close>

text \<open>
  The implementations of \<open>TokenReader\<close>: the two scanners and the \<open>mockTokenReader\<close> of
  decode_test.go, whose token list may hold errors.
\<close>

datatype TokenReader =
    mockTokenReader "(error + Token) list" int
  | BinaryScanner bytes int
  | XMLScanner xml_variant error xmlinput int

fun TokenReader_Token :: "TokenReader \<Rightarrow> (Token \<times> error option) \<times> TokenReader" where
  "TokenReader_Token (mockTokenReader [] offset) =
     ((NilToken, Some EOF), mockTokenReader [] offset)"
| "TokenReader_Token (mockTokenReader (Inl err # tokens) offset) =
     ((NilToken, Some err), mockTokenReader tokens (offset + 1))"
| "TokenReader_Token (mockTokenReader (Inr tok # tokens) offset) =
     ((tok, None), mockTokenReader tokens (offset + 1))"
| "TokenReader_Token (BinaryScanner r off) =
     (case BinaryScanner_loop r off of (res, r1, off1) \<Rightarrow> (res, BinaryScanner r1 off1))"
| "TokenReader_Token (XMLScanner var fin toks off) =
     (case XMLScanner_loop var fin toks off of
        (res, toks1, off1) \<Rightarrow> (res, XMLScanner var fin toks1 off1))"

fun TokenReader_Offset :: "TokenReader \<Rightarrow> int" where
  "TokenReader_Offset (mockTokenReader tokens offset) = offset"
| "TokenReader_Offset (BinaryScanner r off) = off"
| "TokenReader_Offset (XMLScanner var fin toks off) = off"

record Unmarshaler =
  DisallowUnknownFields :: bool
  is_text :: bool
  dec :: scalarDecoder
  scan :: TokenReader
  tok :: Token

text \<open>
  \<open>token\<close> and \<open>next\<close>: advance the scanner and remember the token read. (The field \<open>text\<close>
  of the unmarshaler is \<open>is_text\<close> in the record above.)
\<close>

definition token :: "Unmarshaler \<Rightarrow> (Token \<times> error option) \<times> Unmarshaler" where
  "token u =
     (case TokenReader_Token (scan u) of
        ((t, err), sc) \<Rightarrow> ((t, err), u\<lparr>scan := sc, tok := t\<rparr>))"

definition "next" :: "Unmarshaler \<Rightarrow> error option \<times> Unmarshaler" where
  "next u =
     (case TokenReader_Token (scan u) of
        ((t, err), sc) \<Rightarrow> (err, u\<lparr>scan := sc, tok := t\<rparr>))"

definition NewXMLDecoder :: "xml_variant \<Rightarrow> error \<Rightarrow> xmlinput \<Rightarrow> Unmarshaler" where
  "NewXMLDecoder var fin toks =
     \<lparr>DisallowUnknownFields = False, is_text = True, dec = textDecoder,
      scan = XMLScanner var fin toks 0, tok = NilToken\<rparr>"

definition NewBinaryDecoder :: "bytes \<Rightarrow> Unmarshaler" where
  "NewBinaryDecoder data =
     \<lparr>DisallowUnknownFields = False, is_text = False, dec = binaryDecoder,
      scan = BinaryScanner data 0, tok = NilToken\<rparr>"

text \<open>\<open>newMockDecoder\<close> of decode_test.go.\<close>

definition newMockDecoder :: "(error + Token) list \<Rightarrow> Unmarshaler" where
  "newMockDecoder tokens =
     \<lparr>DisallowUnknownFields = False, is_text = True, dec = textDecoder,
      scan = mockTokenReader tokens 0, tok = NilToken\<rparr>"

section \<open>Writing through \<open>reflect\<close>\<close>

text \<open>
  What \<open>reflect\<close> allows on a value: a value reached through a pointer, a slice element or
  an exported field of such a value can be set; the value \<open>reflect.ValueOf\<close> returns cannot
  (\<open>Unaddressable\<close>); a value reached through an unexported field can neither be set nor be
  turned into an interface (\<open>ReadOnly\<close>). The setters panic where \<open>reflect\<close> does.
\<close>

datatype access = Settable | Unaddressable | ReadOnly

datatype outcome = Done | Failed error | Panicked string

definition store :: "access \<Rightarrow> goval \<Rightarrow> goval \<Rightarrow> outcome \<times> goval" where
  "store acc v new =
     (if acc = Settable then (Done, new)
      else (Panicked ''reflect: value is not settable'', v))"

text \<open>\<open>v.Set(reflect.ValueOf(x))\<close>: the type of \<open>x\<close> must be assignable to the type of \<open>v\<close>.\<close>

definition Set :: "access \<Rightarrow> goval \<Rightarrow> goval \<Rightarrow> outcome \<times> goval" where
  "Set acc v x =
     (if acc = Settable then
        (if Value_Kind v = reflect_Interface then (Done, VInterface (Some x))
         else if type_of x = type_of v then (Done, x)
         else (Panicked ''reflect.Set: value is not assignable'', v))
      else (Panicked ''reflect: value is not settable'', v))"

fun SetInt :: "goval \<Rightarrow> 64 word \<Rightarrow> goval" where
  "SetInt (VInt w) i = VInt i"
| "SetInt (VInt8 w) i = VInt8 (ucast i)"
| "SetInt (VInt16 w) i = VInt16 (ucast i)"
| "SetInt (VInt32 w) i = VInt32 (ucast i)"
| "SetInt (VInt64 w) i = VInt64 i"
| "SetInt v i = v"

fun SetUint :: "goval \<Rightarrow> 64 word \<Rightarrow> goval" where
  "SetUint (VUint w) i = VUint i"
| "SetUint (VUint8 w) i = VUint8 (ucast i)"
| "SetUint (VUint16 w) i = VUint16 (ucast i)"
| "SetUint (VUint32 w) i = VUint32 (ucast i)"
| "SetUint (VUint64 w) i = VUint64 i"
| "SetUint (VUintptr w) i = VUintptr i"
| "SetUint v i = v"

fun SetFloat :: "ext \<Rightarrow> goval \<Rightarrow> 64 word \<Rightarrow> goval" where
  "SetFloat x (VFloat32 w) f = VFloat32 (float32_of_float64 x f)"
| "SetFloat x (VFloat64 w) f = VFloat64 f"
| "SetFloat x v f = v"

fun SetString :: "goval \<Rightarrow> string \<Rightarrow> goval" where
  "SetString (VString w) s = VString s"
| "SetString (VURL w) s = VURL s"
| "SetString v s = v"

fun SetBool :: "goval \<Rightarrow> bool \<Rightarrow> goval" where
  "SetBool (VBool w) b = VBool b"
| "SetBool v b = v"

fun bitSize :: "goval \<Rightarrow> nat" where
  "bitSize (VInt8 w) = 8"
| "bitSize (VInt16 w) = 16"
| "bitSize (VInt32 w) = 32"
| "bitSize v = 64"

text \<open>\<open>v.OverflowInt(i)\<close>: the 64-bit value does not fit the width of the destination.\<close>

definition OverflowInt :: "goval \<Rightarrow> 64 word \<Rightarrow> bool" where
  "OverflowInt v i = (sint i < - (2 ^ (bitSize v - 1)) \<or> 2 ^ (bitSize v - 1) \<le> sint i)"

fun OverflowFloat :: "ext \<Rightarrow> goval \<Rightarrow> 64 word \<Rightarrow> bool" where
  "OverflowFloat x (VFloat32 w) f = OverflowFloat32 x f"
| "OverflowFloat x v f = False"

definition bytes_value :: "bytes \<Rightarrow> goval" where
  "bytes_value b = VSlice TUint8 (map (\<lambda>c. VUint8 (of_char c)) b) (length b)"

text \<open>\<open>v.Type().Elem().Kind()\<close> of a slice or array.\<close>

fun Elem_Kind :: "goval \<Rightarrow> Kind" where
  "Elem_Kind (VSlice t xs n) = Type_Kind t"
| "Elem_Kind (VArray t xs) = Type_Kind t"
| "Elem_Kind (VUUID b) = reflect_Uint8"
| "Elem_Kind v = reflect_Other"

text \<open>\<open>reflect.Copy(v, reflect.ValueOf(value))\<close> into a byte array: the shorter length wins.\<close>

fun Copy_bytes :: "goval \<Rightarrow> bytes \<Rightarrow> goval" where
  "Copy_bytes (VArray t xs) b =
     VArray t (map (\<lambda>c. VUint8 (of_char c)) (take (length xs) b) @ drop (length b) xs)"
| "Copy_bytes (VUUID u) b = VUUID (take (length u) b @ drop (length b) u)"
| "Copy_bytes v b = v"

definition is_int_kind :: "Kind \<Rightarrow> bool" where
  "is_int_kind k = (k = reflect_Int \<or> k = reflect_Int8 \<or> k = reflect_Int16
                    \<or> k = reflect_Int32 \<or> k = reflect_Int64)"

definition is_float_kind :: "Kind \<Rightarrow> bool" where
  "is_float_kind k = (k = reflect_Float32 \<or> k = reflect_Float64)"

text \<open>Use the value a decoder returned, or leave with its error or panic.\<close>

fun bind_ret :: "'a ret \<Rightarrow> goval \<Rightarrow> ('a \<Rightarrow> outcome \<times> goval) \<Rightarrow> outcome \<times> goval" where
  "bind_ret (Panic p) v k = (Panicked p, v)"
| "bind_ret (Ret a (Some err)) v k = (Failed err, v)"
| "bind_ret (Ret a None) v k = k a"

section \<open>Scalar conversion (decode.go: scalar)\<close>

definition typeError :: "Unmarshaler \<Rightarrow> string \<Rightarrow> goval \<Rightarrow> outcome \<times> goval" where
  "typeError u what v =
     (Failed (UnmarshalTypeError what (type_of v) (TokenReader_Offset (scan u))), v)"

definition scalar_Real :: "ext \<Rightarrow> Unmarshaler \<Rightarrow> access \<Rightarrow> Scalar \<Rightarrow> goval
    \<Rightarrow> outcome \<times> goval" where
  "scalar_Real x u acc tk v =
     (if is_float_kind (Value_Kind v) then
        bind_ret (dec_real x (dec u) (Data tk)) v (\<lambda>val.
          if OverflowFloat x v val then typeError u (''real '' @ Data tk) v
          else store acc v (SetFloat x v val))
      else if Value_Kind v = reflect_Interface then
        bind_ret (dec_real x (dec u) (Data tk)) v (\<lambda>val. Set acc v (VFloat64 val))
      else typeError u (''real '' @ Data tk) v)"

definition scalar_Integer :: "Unmarshaler \<Rightarrow> access \<Rightarrow> Scalar \<Rightarrow> goval
    \<Rightarrow> outcome \<times> goval" where
  "scalar_Integer u acc tk v =
     (if is_int_kind (Value_Kind v) then
        bind_ret (dec_integer (dec u) (Data tk)) v (\<lambda>val.
          if OverflowInt v val then typeError u (''integer '' @ Data tk) v
          else store acc v (SetInt v val))
      else if Value_Kind v = reflect_Interface then
        bind_ret (dec_integer (dec u) (Data tk)) v (\<lambda>val. Set acc v (VInt32 (ucast val)))
      else typeError u (''integer '' @ Data tk) v)"

definition scalar_URI :: "access \<Rightarrow> Scalar \<Rightarrow> goval \<Rightarrow> outcome \<times> goval" where
  "scalar_URI acc tk v = Set acc v (VURL (Data tk))"

definition scalar_String :: "Unmarshaler \<Rightarrow> access \<Rightarrow> Scalar \<Rightarrow> goval
    \<Rightarrow> outcome \<times> goval" where
  "scalar_String u acc tk v =
     (if Value_Kind v = reflect_String \<or> Value_Kind v = reflect_Interface
      then Set acc v (VString (Data tk))
      else typeError u (''string '' @ Data tk) v)"

definition scalar_Boolean :: "Unmarshaler \<Rightarrow> access \<Rightarrow> Scalar \<Rightarrow> goval
    \<Rightarrow> outcome \<times> goval" where
  "scalar_Boolean u acc tk v =
     (if Value_Kind v = reflect_Bool \<or> Value_Kind v = reflect_Interface then
        bind_ret (dec_boolean (dec u) (Data tk)) v (\<lambda>val. Set acc v (VBool val))
      else if Value_Kind v = reflect_String then
        bind_ret (dec_boolean (dec u) (Data tk)) v (\<lambda>val.
          if val then store acc v (SetString v ''true'')
          else store acc v (SetString v ''false''))
      else typeError u (''boolean '' @ Data tk) v)"

text \<open>
  \<open>binary.BigEndian.Uint32(value[:4])\<close> and \<open>Uint64(value[:8])\<close> on the decoded bytes, whose
  capacity is their length: a shorter slice panics.
\<close>

definition with_Uint32 :: "bytes \<Rightarrow> goval \<Rightarrow> (32 word \<Rightarrow> outcome \<times> goval)
    \<Rightarrow> outcome \<times> goval" where
  "with_Uint32 val v k =
     (case BigEndian_Uint32 val of
        None \<Rightarrow> (Panicked ''slice bounds out of range'', v)
      | Some bits \<Rightarrow> k bits)"

definition with_Uint64 :: "bytes \<Rightarrow> goval \<Rightarrow> (64 word \<Rightarrow> outcome \<times> goval)
    \<Rightarrow> outcome \<times> goval" where
  "with_Uint64 val v k =
     (case BigEndian_Uint64 val of
        None \<Rightarrow> (Panicked ''slice bounds out of range'', v)
      | Some bits \<Rightarrow> k bits)"

definition binary_encoding :: "Unmarshaler \<Rightarrow> Scalar \<Rightarrow> string" where
  "binary_encoding u tk =
     (if is_text u then (case Attr tk ''encoding'' of None \<Rightarrow> Base16 | Some e \<Rightarrow> e)
      else [])"

definition scalar_Binary :: "ext \<Rightarrow> Unmarshaler \<Rightarrow> access \<Rightarrow> Scalar \<Rightarrow> goval
    \<Rightarrow> outcome \<times> goval" where
  "scalar_Binary x u acc tk v =
     bind_ret (dec_binary x (dec u) (Data tk) (binary_encoding u tk)) v (\<lambda>val.
       if Value_Kind v = reflect_Slice \<or> Value_Kind v = reflect_Array then
         (if Elem_Kind v \<noteq> reflect_Uint8 then typeError u (''binary '' @ Data tk) v
          else if Value_Kind v = reflect_Array then store acc v (Copy_bytes v val)
          else Set acc v (bytes_value val))
       else if Value_Kind v = reflect_Interface then Set acc v (bytes_value val)
       else if Value_Kind v = reflect_String then store acc v (SetString v val)
       else if Value_Kind v = reflect_Bool then store acc v (SetBool v (length (Data tk) > 0))
       else if Value_Kind v = reflect_Uint \<or> Value_Kind v = reflect_Uint32 then
         (if length val < 4 then typeError u (''binary (too few bytes) '' @ Data tk) v
          else with_Uint32 val v (\<lambda>bits. store acc v (SetUint v (ucast bits))))
       else if Value_Kind v = reflect_Float32 then
         with_Uint32 val v (\<lambda>bits. store acc v (SetFloat x v (float64_of_float32 x bits)))
       else if Value_Kind v = reflect_Int \<or> Value_Kind v = reflect_Int32 then
         (if length val < 4 then typeError u (''binary (too few bytes) '' @ Data tk) v
          else with_Uint32 val v (\<lambda>bits. store acc v (SetInt v (ucast bits))))
       else if Value_Kind v = reflect_Int64 then
         (if length val < 8 then typeError u (''binary (too few bytes) '' @ Data tk) v
          else with_Uint64 val v (\<lambda>bits. store acc v (SetInt v bits)))
       else if Value_Kind v = reflect_Uint64 then
         (if length val < 8 then typeError u (''binary (too few bytes) '' @ Data tk) v
          else with_Uint64 val v (\<lambda>bits. store acc v (SetUint v bits)))
       else if Value_Kind v = reflect_Float64 then
         (if length val < 8 then typeError u (''binary (too few bytes) '' @ Data tk) v
          else with_Uint64 val v (\<lambda>bits. store acc v (SetFloat x v bits)))
       else typeError u (''binary '' @ Data tk) v)"

definition scalar_Date :: "ext \<Rightarrow> Unmarshaler \<Rightarrow> access \<Rightarrow> Scalar \<Rightarrow> goval
    \<Rightarrow> outcome \<times> goval" where
  "scalar_Date x u acc tk v =
     (if is_float_kind (Value_Kind v) then
        bind_ret (dec_date x (dec u) (Data tk)) v (\<lambda>val.
          if OverflowFloat x v (float64_of_int64 x (Unix val))
          then typeError u (''date '' @ Data tk) v
          else store acc v (SetFloat x v (float64_of_int64 x (Unix val))))
      else if is_int_kind (Value_Kind v) then
        bind_ret (dec_date x (dec u) (Data tk)) v (\<lambda>val.
          if OverflowInt v (Unix val) then typeError u (''date '' @ Data tk) v
          else store acc v (SetInt v (Unix val)))
      else if Value_Kind v = reflect_String then store acc v (SetString v (Data tk))
      else if Value_Kind v = reflect_Interface then
        bind_ret (dec_date x (dec u) (Data tk)) v (\<lambda>val. Set acc v (VTime val))
      else
        (case v of
           VTime t0 \<Rightarrow> bind_ret (dec_date x (dec u) (Data tk)) v (\<lambda>val. Set acc v (VTime val))
         | _ \<Rightarrow> typeError u (''date '' @ Data tk) v))"

text \<open>The \<open>switch tok.Type\<close> of \<open>scalar\<close>; it has no case for \<open>UUIDType\<close>.\<close>

fun scalar_switch :: "ext \<Rightarrow> Unmarshaler \<Rightarrow> access \<Rightarrow> Scalar \<Rightarrow> ScalarType \<Rightarrow> goval
    \<Rightarrow> outcome \<times> goval" where
  "scalar_switch x u acc tk Real v = scalar_Real x u acc tk v"
| "scalar_switch x u acc tk Integer v = scalar_Integer u acc tk v"
| "scalar_switch x u acc tk URI v = scalar_URI acc tk v"
| "scalar_switch x u acc tk String v = scalar_String u acc tk v"
| "scalar_switch x u acc tk Boolean v = scalar_Boolean u acc tk v"
| "scalar_switch x u acc tk Binary v = scalar_Binary x u acc tk v"
| "scalar_switch x u acc tk Date v = scalar_Date x u acc tk v"
| "scalar_switch x u acc tk Undefined v = (Done, v)"
| "scalar_switch x u acc tk UUIDType v = (Done, v)"

text \<open>
  The custom unmarshaler of the destination, if its dynamic value has one: the text hook
  in text mode, the binary hook otherwise. The result maps the payload to the updated
  destination and the hook's error.
\<close>

definition hook :: "ext \<Rightarrow> Unmarshaler \<Rightarrow> goval \<Rightarrow> (bytes \<Rightarrow> goval \<times> error option) option" where
  "hook x u v =
     (case v of
        VInterface None \<Rightarrow> None
      | VInterface (Some w) \<Rightarrow>
          (case (if is_text u then TextUnmarshaler x w else BinaryUnmarshaler x w) of
             None \<Rightarrow> None
           | Some un \<Rightarrow> Some (\<lambda>b. case un b of (w1, err) \<Rightarrow> (VInterface (Some w1), err)))
      | _ \<Rightarrow> (if is_text u then TextUnmarshaler x v else BinaryUnmarshaler x v))"

definition scalar :: "ext \<Rightarrow> Unmarshaler \<Rightarrow> access \<Rightarrow> goval \<Rightarrow> outcome \<times> goval" where
  "scalar x u acc v =
     (case tok u of
        ScalarToken tk \<Rightarrow>
          if acc = ReadOnly
          then (Panicked ''reflect.Value.Interface: value obtained from unexported field'', v)
          else
            (case hook x u v of
               Some un \<Rightarrow>
                 (case un (Data tk) of
                    (v1, None) \<Rightarrow> (Done, v1)
                  | (v1, Some err) \<Rightarrow> (Failed err, v1))
             | None \<Rightarrow>
                 (case v of
                    VPointer t p \<Rightarrow>
                      if Type tk = Undefined then (Done, v)
                      else
                        (case p of
                           None \<Rightarrow>
                             if acc = Settable then
                               (case scalar_switch x u Settable tk (Type tk) (zero t) of
                                  (out, w) \<Rightarrow> (out, VPointer t (Some w)))
                             else (Panicked ''reflect: value is not settable'', v)
                         | Some w0 \<Rightarrow>
                             (case scalar_switch x u Settable tk (Type tk) w0 of
                                (out, w) \<Rightarrow> (out, VPointer t (Some w))))
                  | _ \<Rightarrow> scalar_switch x u acc tk (Type tk) v))
      | _ \<Rightarrow> (Panicked ''interface conversion: Token is not Scalar'', v))"

section \<open>Struct fields (decode.go: fieldsForType)\<close>

text \<open>
  The fields \<open>reflect\<close> reports for a struct type. \<open>time.Time\<close> is a struct of three
  unexported fields (its location pointer is taken as nil, the UTC location).
\<close>

definition time_fields :: "(string \<times> string \<times> string \<times> gotype) list" where
  "time_fields = [(''wall'', [], [], TUint64), (''ext'', [], [], TInt64),
                  (''loc'', [], [], TPointer (TOther ''time.Location''))]"

fun Type_fields :: "gotype \<Rightarrow> (string \<times> string \<times> string \<times> gotype) list" where
  "Type_fields (TStruct fs) = fs"
| "Type_fields TTime = time_fields"
| "Type_fields t = []"

text \<open>
  The tag string of a field is its \<open>llsd\<close> tag or, when that is empty, its \<open>json\<close> tag.
  \<open>fieldsForType\<close> maps the wire name of every field to its index and tag; a later field
  replaces an earlier one of the same wire name. The cache in front of it only memoizes.
\<close>

definition field_tag :: "string \<times> string \<times> string \<times> 'a \<Rightarrow> tag" where
  "field_tag f =
     (case f of (name, llsd, json, t) \<Rightarrow> parseTag (if llsd = [] then json else llsd) name)"

definition fieldsForType :: "gotype \<Rightarrow> (string \<rightharpoonup> nat \<times> tag)" where
  "fieldsForType t =
     fold (\<lambda>(i, f) m. m(Name (field_tag f) \<mapsto> (i, field_tag f)))
       (enumerate 0 (Type_fields t)) Map.empty"

definition cachedFieldsForType :: "gotype \<Rightarrow> (string \<rightharpoonup> nat \<times> tag)" where
  "cachedFieldsForType t = fieldsForType t"

text \<open>The field values of a struct value, and the struct with its field values replaced.\<close>

fun struct_fields :: "goval \<Rightarrow> (string \<times> string \<times> string \<times> goval) list" where
  "struct_fields (VStruct fs) = fs"
| "struct_fields (VTime t) = map (\<lambda>(n, l, j, ty). (n, l, j, zero ty)) time_fields"
| "struct_fields v = []"

fun with_fields :: "goval \<Rightarrow> (string \<times> string \<times> string \<times> goval) list \<Rightarrow> goval" where
  "with_fields (VStruct fs) fs1 = VStruct fs1"
| "with_fields v fs1 = v"

definition set_field :: "goval \<Rightarrow> nat \<Rightarrow> goval \<Rightarrow> goval" where
  "set_field v i w =
     with_fields v ((struct_fields v)[i := (case struct_fields v ! i of
        (n, l, j, old) \<Rightarrow> (n, l, j, w))])"

definition get_field :: "goval \<Rightarrow> nat \<Rightarrow> goval" where
  "get_field v i = (case struct_fields v ! i of (n, l, j, w) \<Rightarrow> w)"

definition field_name :: "goval \<Rightarrow> nat \<Rightarrow> string" where
  "field_name v i = (case struct_fields v ! i of (n, l, j, w) \<Rightarrow> n)"

text \<open>A field is exported when its name starts with an upper-case letter (ASCII here).\<close>

definition is_exported :: "string \<Rightarrow> bool" where
  "is_exported name =
     (case name of [] \<Rightarrow> False
      | c # cs \<Rightarrow> 65 \<le> (of_char c :: nat) \<and> (of_char c :: nat) \<le> 90)"

definition field_access :: "access \<Rightarrow> string \<Rightarrow> access" where
  "field_access acc name =
     (if acc = ReadOnly then ReadOnly
      else if is_exported name then acc
      else ReadOnly)"

definition elem_access :: "access \<Rightarrow> access" where
  "elem_access acc = (if acc = ReadOnly then ReadOnly else Settable)"

section \<open>Sequences (decode.go: array)\<close>

fun Len :: "goval \<Rightarrow> nat" where
  "Len (VSlice t backing n) = n"
| "Len (VArray t xs) = length xs"
| "Len (VUUID b) = length b"
| "Len v = 0"

fun Index :: "goval \<Rightarrow> nat \<Rightarrow> goval" where
  "Index (VSlice t backing n) i = backing ! i"
| "Index (VArray t xs) i = xs ! i"
| "Index (VUUID b) i = VUint8 (of_char (b ! i))"
| "Index v i = v"

fun byte_of :: "goval \<Rightarrow> char" where
  "byte_of (VUint8 w) = char_of (unat w)"
| "byte_of v = CHR 0x00"

fun set_index :: "goval \<Rightarrow> nat \<Rightarrow> goval \<Rightarrow> goval" where
  "set_index (VSlice t backing n) i w = VSlice t (backing[i := w]) n"
| "set_index (VArray t xs) i w = VArray t (xs[i := w])"
| "set_index (VUUID b) i w = VUUID (b[i := byte_of w])"
| "set_index v i w = v"

fun index_access :: "access \<Rightarrow> goval \<Rightarrow> access" where
  "index_access acc (VSlice t backing n) = elem_access acc"
| "index_access acc v = acc"

text \<open>
  The \<open>// grow slice\<close> block for element \<open>i\<close>: a fresh backing array of capacity
  \<open>cap + cap/2\<close> (at least 4) when \<open>i\<close> reaches the capacity, then \<open>SetLen(i + 1)\<close> when \<open>i\<close>
  reaches the length. \<open>Inl\<close> is the panic of \<open>reflect\<close> on a value that cannot be set.
\<close>

definition newcap :: "nat \<Rightarrow> nat" where
  "newcap c = (if c + c div 2 < 4 then 4 else c + c div 2)"

fun grow :: "access \<Rightarrow> goval \<Rightarrow> nat \<Rightarrow> string + goval" where
  "grow acc (VSlice t backing n) i =
     (if i \<ge> length backing \<or> i \<ge> n then
        (if acc = Settable then
           Inr (VSlice t
                 (if i \<ge> length backing
                  then take n backing @ replicate (newcap (length backing) - n) (zero t)
                  else backing)
                 (if i \<ge> n then i + 1 else n))
         else Inl ''reflect: value is not settable'')
      else Inr (VSlice t backing n))"
| "grow acc v i = Inr v"

section \<open>The unmarshal engine (decode.go: value, object, array, Unmarshal)\<close>

text \<open>
  The engine's loops run until the scanner yields an end token or an error, so the
  functions take fuel: the result \<open>None\<close> means the fuel ran out, \<open>Some\<close> carries the
  outcome, the destination as the call left it (an error leaves it partly filled) and
  the unmarshaler. An invalid \<open>reflect.Value{}\<close> destination is \<open>None\<close> in \<open>value\<close>.
\<close>

type_synonym result = "(outcome \<times> goval \<times> Unmarshaler) option"

definition in_pointer :: "gotype \<Rightarrow> result \<Rightarrow> result" where
  "in_pointer t r =
     (case r of None \<Rightarrow> None
      | Some (out, w, u) \<Rightarrow> Some (out, VPointer t (Some w), u))"

definition invalidLLSD :: "Unmarshaler \<Rightarrow> string \<Rightarrow> error" where
  "invalidLLSD u problem = InvalidLLSDError problem (TokenReader_Offset (scan u))"

text \<open>\<open>v.SetMapIndex(reflect.ValueOf(key), subv)\<close> on the entries of a map.\<close>

fun map_set :: "string \<Rightarrow> goval \<Rightarrow> (string \<times> goval) list \<Rightarrow> (string \<times> goval) list" where
  "map_set k w [] = [(k, w)]"
| "map_set k w ((k1, w1) # es) = (if k1 = k then (k, w) # es else (k1, w1) # map_set k w es)"

fun SetMapIndex :: "access \<Rightarrow> goval \<Rightarrow> string \<Rightarrow> goval \<Rightarrow> string + goval" where
  "SetMapIndex acc (VMap kt et m) key subv =
     (if acc = ReadOnly then Inl ''reflect: value obtained from unexported field''
      else if kt \<noteq> TString then Inl ''reflect.Value.SetMapIndex: value is not assignable''
      else (case m of
              None \<Rightarrow> Inl ''assignment to entry in nil map''
            | Some es \<Rightarrow> Inr (VMap kt et (Some (map_set key subv es)))))"
| "SetMapIndex acc v key subv = Inr v"

fun map_key_kind :: "goval \<Rightarrow> Kind" where
  "map_key_kind (VMap kt et m) = Type_Kind kt"
| "map_key_kind v = reflect_Other"

fun map_elem_type :: "goval \<Rightarrow> gotype" where
  "map_elem_type (VMap kt et m) = et"
| "map_elem_type v = type_of v"

text \<open>
  The pointer prologue of \<open>object\<close> and \<open>array\<close>: a nil pointer is allocated (which needs a
  settable value), then the pointee is the destination. \<open>rewrap\<close> puts the pointee back.
\<close>

definition deref :: "access \<Rightarrow> goval \<Rightarrow> string + access \<times> goval" where
  "deref acc v =
     (case v of
        VPointer t p \<Rightarrow>
          (case p of
             None \<Rightarrow>
               if acc = Settable then Inr (Settable, zero t)
               else Inl ''reflect: value is not settable''
           | Some w \<Rightarrow> Inr (elem_access acc, w))
      | _ \<Rightarrow> Inr (acc, v))"

definition rewrap :: "goval \<Rightarrow> result \<Rightarrow> result" where
  "rewrap v r =
     (case v of
        VPointer t p \<Rightarrow> in_pointer t r
      | _ \<Rightarrow> r)"

text \<open>
  One turn of a loop, up to the point where a value is decoded: the loop stops with an
  outcome, goes on to its next turn, or decodes a value into a slot.
\<close>

datatype 'a step = Stop outcome Unmarshaler | Skip Unmarshaler | Into 'a Unmarshaler

text \<open>The struct loop: read a key, find its field, advance to the presumed value.\<close>

definition struct_step :: "ext \<Rightarrow> Unmarshaler \<Rightarrow> goval \<Rightarrow> nat step" where
  "struct_step x u v =
     (case token u of
        ((t, Some err), u1) \<Rightarrow> Stop (Failed err) u1
      | ((t, None), u1) \<Rightarrow>
          (case t of
             Key key \<Rightarrow>
               (case cachedFieldsForType (type_of v) key of
                  None \<Rightarrow>
                    if DisallowUnknownFields u1
                    then Stop (Failed (errorString (''LLSD: Unknown field '' @ Quote x key))) u1
                    else
                      (case next u1 of
                         (Some err, u2) \<Rightarrow> Stop (Failed err) u2
                       | (None, u2) \<Rightarrow> Skip u2)
                | Some (i, tg) \<Rightarrow>
                    (case next u1 of
                       (Some err, u2) \<Rightarrow> Stop (Failed err) u2
                     | (None, u2) \<Rightarrow> Into i u2))
           | MapEnd \<Rightarrow> Stop Done u1
           | _ \<Rightarrow>
               Stop (Failed (invalidLLSD u1 (''expected map to start with key, got ''
                      @ Token_TypeName t))) u1))"

text \<open>The map loop: read a key and advance to the presumed value.\<close>

definition map_step :: "Unmarshaler \<Rightarrow> string step" where
  "map_step u =
     (case token u of
        ((t, Some err), u1) \<Rightarrow> Stop (Failed err) u1
      | ((t, None), u1) \<Rightarrow>
          (case t of
             Key key \<Rightarrow>
               (case next u1 of
                  (Some err, u2) \<Rightarrow> Stop (Failed err) u2
                | (None, u2) \<Rightarrow> Into key u2)
           | MapEnd \<Rightarrow> Stop Done u1
           | _ \<Rightarrow>
               Stop (Failed (invalidLLSD u1 (''expected map to start with key, got ''
                      @ Token_TypeName t))) u1))"

text \<open>The array loop: read the first token of the next element, grow a slice.\<close>

definition seq_step :: "Unmarshaler \<Rightarrow> access \<Rightarrow> goval \<Rightarrow> nat \<Rightarrow> goval step" where
  "seq_step u acc v i =
     (case token u of
        ((t, Some err), u1) \<Rightarrow> Stop (Failed err) u1
      | ((t, None), u1) \<Rightarrow>
          if t = ArrayEnd then Stop Done u1
          else
            (case grow acc v i of
               Inl p \<Rightarrow> Stop (Panicked p) u1
             | Inr v1 \<Rightarrow>
                 if Value_Kind v1 = reflect_Interface
                 then Stop (Panicked ''reflect: call of reflect.Value.Len on interface Value'') u1
                 else Into v1 u1))"

definition put_field :: "goval \<Rightarrow> nat \<Rightarrow> goval option \<Rightarrow> goval" where
  "put_field v i wo = (case wo of None \<Rightarrow> v | Some w \<Rightarrow> set_field v i w)"

definition put_index :: "goval \<Rightarrow> nat \<Rightarrow> goval option \<Rightarrow> goval" where
  "put_index v i wo = (case wo of None \<Rightarrow> v | Some w \<Rightarrow> set_index v i w)"

definition unexpected :: "Unmarshaler \<Rightarrow> error" where
  "unexpected u = invalidLLSD u (''unexpected '' @ Token_TypeName (tok u))"

definition objectError :: "Unmarshaler \<Rightarrow> string \<Rightarrow> goval \<Rightarrow> result" where
  "objectError u what v =
     Some (Failed (UnmarshalTypeError what (type_of v) (TokenReader_Offset (scan u))), v, u)"

definition is_Scalar :: "Token \<Rightarrow> bool" where
  "is_Scalar t = (case t of ScalarToken tk \<Rightarrow> True | _ \<Rightarrow> False)"

definition some_value :: "result \<Rightarrow> (outcome \<times> goval option \<times> Unmarshaler) option" where
  "some_value r = (case r of None \<Rightarrow> None | Some (out, v, u) \<Rightarrow> Some (out, Some v, u))"

text \<open>
  \<open>value\<close> (the function \<open>Unmarshaler_value\<close> below) calls \<open>object\<close> and \<open>array\<close>, whose loops
  call \<open>value\<close> again. The loops are defined first, over the function \<open>val\<close> they call for a
  nested value; \<open>Unmarshaler_value\<close> then ties the knot, one level of nesting per unit of
  fuel.
\<close>

type_synonym vresult = "(outcome \<times> goval option \<times> Unmarshaler) option"

type_synonym valuefn = "Unmarshaler \<Rightarrow> access \<Rightarrow> goval option \<Rightarrow> vresult"

primrec struct_loop :: "nat \<Rightarrow> valuefn \<Rightarrow> ext \<Rightarrow> Unmarshaler \<Rightarrow> access \<Rightarrow> goval \<Rightarrow> result" where
  "struct_loop 0 val x u acc v = None"
| "struct_loop (Suc n) val x u acc v =
     (case struct_step x u v of
        Stop out u1 \<Rightarrow> Some (out, v, u1)
      | Skip u2 \<Rightarrow> struct_loop n val x u2 acc v
      | Into i u2 \<Rightarrow>
          (case val u2 (field_access acc (field_name v i)) (Some (get_field v i)) of
             None \<Rightarrow> None
           | Some (out, wo, u3) \<Rightarrow>
               if out = Done then struct_loop n val x u3 acc (put_field v i wo)
               else Some (out, put_field v i wo, u3)))"

primrec map_loop :: "nat \<Rightarrow> valuefn \<Rightarrow> Unmarshaler \<Rightarrow> access \<Rightarrow> goval \<Rightarrow> result" where
  "map_loop 0 val u acc v = None"
| "map_loop (Suc n) val u acc v =
     (case map_step u of
        Stop out u1 \<Rightarrow> Some (out, v, u1)
      | Skip u2 \<Rightarrow> map_loop n val u2 acc v
      | Into key u2 \<Rightarrow>
          (case val u2 Settable (Some (zero (map_elem_type v))) of
             None \<Rightarrow> None
           | Some (out, wo, u3) \<Rightarrow>
               if out = Done then
                 (case SetMapIndex acc v key (case wo of None \<Rightarrow> zero (map_elem_type v)
                                                | Some subv \<Rightarrow> subv) of
                    Inl p \<Rightarrow> Some (Panicked p, v, u3)
                  | Inr v1 \<Rightarrow> map_loop n val u3 acc v1)
               else Some (out, v, u3)))"

primrec seq_loop :: "nat \<Rightarrow> valuefn \<Rightarrow> Unmarshaler \<Rightarrow> access \<Rightarrow> goval \<Rightarrow> nat \<Rightarrow> result" where
  "seq_loop 0 val u acc v i = None"
| "seq_loop (Suc n) val u acc v i =
     (case seq_step u acc v i of
        Stop out u1 \<Rightarrow> Some (out, v, u1)
      | Skip u1 \<Rightarrow> seq_loop n val u1 acc v (i + 1)
      | Into v1 u1 \<Rightarrow>
          if i < Len v1 then
            (case val u1 (index_access acc v1) (Some (Index v1 i)) of
               None \<Rightarrow> None
             | Some (out, wo, u2) \<Rightarrow>
                 if out = Done then seq_loop n val u2 acc (put_index v1 i wo) (i + 1)
                 else Some (out, put_index v1 i wo, u2))
          else
            (case val u1 Settable None of
               None \<Rightarrow> None
             | Some (out, wo, u2) \<Rightarrow>
                 if out = Done then seq_loop n val u2 acc v1 (i + 1)
                 else Some (out, v1, u2)))"

definition object :: "nat \<Rightarrow> valuefn \<Rightarrow> ext \<Rightarrow> Unmarshaler \<Rightarrow> access \<Rightarrow> goval \<Rightarrow> result" where
  "object n val x u acc v =
     (case deref acc v of
        Inl p \<Rightarrow> Some (Panicked p, v, u)
      | Inr (acc1, w) \<Rightarrow>
          rewrap v
            (if Value_Kind w = reflect_Struct then struct_loop n val x u acc1 w
             else if Value_Kind w = reflect_Map then
               (if map_key_kind w = reflect_String then map_loop n val u acc1 w
                else objectError u ''map '' w)
             else objectError u ''object'' w))"

text \<open>
  In the interface case \<open>array\<close> stores an empty \<open>[]any\<close> in the destination and calls itself
  on that slice, which \<open>reflect.ValueOf\<close> made unaddressable: the call is the array loop on
  it. Then the case falls through to the loop on the interface value itself.
\<close>

definition array :: "nat \<Rightarrow> valuefn \<Rightarrow> Unmarshaler \<Rightarrow> access \<Rightarrow> goval \<Rightarrow> result" where
  "array n val u acc v =
     (case deref acc v of
        Inl p \<Rightarrow> Some (Panicked p, v, u)
      | Inr (acc1, w) \<Rightarrow>
          rewrap v
            (if Value_Kind w = reflect_Interface then
               (if acc1 = Settable then
                  (case seq_loop n val u Unaddressable (VSlice TInterface [] 0) 0 of
                     None \<Rightarrow> None
                   | Some (out, newv, u1) \<Rightarrow>
                       if out = Done
                       then seq_loop n val u1 acc1 (VInterface (Some (VSlice TInterface [] 0))) 0
                       else Some (out, VInterface (Some (VSlice TInterface [] 0)), u1))
                else Some (Panicked ''reflect: value is not settable'', w, u))
             else if Value_Kind w = reflect_Slice \<or> Value_Kind w = reflect_Array
             then seq_loop n val u acc1 w 0
             else objectError u ''array'' w))"

primrec Unmarshaler_value :: "nat \<Rightarrow> ext \<Rightarrow> Unmarshaler \<Rightarrow> access \<Rightarrow> goval option \<Rightarrow> vresult" where
  "Unmarshaler_value 0 x u acc vo = None"
| "Unmarshaler_value (Suc n) x u acc vo =
     (case vo of
        None \<Rightarrow>
          if tok u = MapStart \<or> tok u = ArrayStart \<or> is_Scalar (tok u)
          then Some (Done, None, u)
          else Some (Failed (unexpected u), None, u)
      | Some v \<Rightarrow>
          if tok u = MapStart then some_value (object n (Unmarshaler_value n x) x u acc v)
          else if tok u = ArrayStart then some_value (array n (Unmarshaler_value n x) u acc v)
          else if is_Scalar (tok u) then
            (case scalar x u acc v of (out, v1) \<Rightarrow> Some (out, Some v1, u))
          else Some (Failed (unexpected u), Some v, u))"

text \<open>\<open>Unmarshal\<close>, and the two entry points on their inputs.\<close>

definition Unmarshal :: "nat \<Rightarrow> ext \<Rightarrow> Unmarshaler \<Rightarrow> goval \<Rightarrow> result" where
  "Unmarshal n x u v =
     (if Value_Kind v \<noteq> reflect_Pointer
      then Some (Failed (errorString ''Non-pointer passed to Unmarshal''), v, u)
      else
        (case next u of
           (Some err, u1) \<Rightarrow> Some (Failed err, v, u1)
         | (None, u1) \<Rightarrow>
             (case Unmarshaler_value n x u1 Unaddressable (Some v) of
                None \<Rightarrow> None
              | Some (out, Some v1, u2) \<Rightarrow> Some (out, v1, u2)
              | Some (out, None, u2) \<Rightarrow> Some (out, v, u2))))"

definition UnmarshalXML :: "nat \<Rightarrow> ext \<Rightarrow> xml_variant \<Rightarrow> error \<Rightarrow> xmlinput \<Rightarrow> goval
    \<Rightarrow> result" where
  "UnmarshalXML n x var fin data v = Unmarshal n x (NewXMLDecoder var fin data) v"

definition UnmarshalBinary :: "nat \<Rightarrow> ext \<Rightarrow> bytes \<Rightarrow> goval \<Rightarrow> result" where
  "UnmarshalBinary n x data v = Unmarshal n x (NewBinaryDecoder data) v"

section \<open>Standard-library encoders modelled exactly\<close>

text \<open>\<open>strings.ToUpper(hex.EncodeToString(b))\<close>.\<close>

definition hextable :: string where
  "hextable = ''0123456789abcdef''"

definition hex_EncodeToString :: "bytes \<Rightarrow> string" where
  "hex_EncodeToString b =
     concat (map (\<lambda>c. [hextable ! ((of_char c :: nat) div 16),
                         hextable ! ((of_char c :: nat) mod 16)]) b)"

definition ToUpper :: "string \<Rightarrow> string" where
  "ToUpper s =
     map (\<lambda>c. if 97 \<le> (of_char c :: nat) \<and> (of_char c :: nat) \<le> 122
               then char_of ((of_char c :: nat) - 32) else c) s"

text \<open>\<open>base64.StdEncoding.EncodeToString\<close>: the standard alphabet, padded with \<open>=\<close>.\<close>

definition encodeStd :: string where
  "encodeStd = ''ABCDEFGHIJKLMNOPQRSTUVWXYZabcdefghijklmnopqrstuvwxyz0123456789+/''"

fun base64_EncodeToString :: "bytes \<Rightarrow> string" where
  "base64_EncodeToString [] = []"
| "base64_EncodeToString [a] =
     [encodeStd ! ((of_char a :: nat) div 4),
      encodeStd ! ((of_char a :: nat) mod 4 * 16),
      CHR ''='', CHR ''='']"
| "base64_EncodeToString [a, b] =
     [encodeStd ! ((of_char a :: nat) div 4),
      encodeStd ! ((of_char a :: nat) mod 4 * 16 + (of_char b :: nat) div 16),
      encodeStd ! ((of_char b :: nat) mod 16 * 4),
      CHR ''='']"
| "base64_EncodeToString (a # b # c # rest) =
     [encodeStd ! ((of_char a :: nat) div 4),
      encodeStd ! ((of_char a :: nat) mod 4 * 16 + (of_char b :: nat) div 16),
      encodeStd ! ((of_char b :: nat) mod 16 * 4 + (of_char c :: nat) div 64),
      encodeStd ! ((of_char c :: nat) mod 64)]
     @ base64_EncodeToString rest"

section \<open>XML encoder (the second half of decode.go)\<close>

text \<open>The encoder's buffered writer \<open>w\<close> is the text written so far, \<open>writer\<close>.\<close>

record XMLEncoder =
  writer :: string
  indent :: string
  depth :: nat

definition NewXMLEncoder :: XMLEncoder where
  "NewXMLEncoder = \<lparr>writer = [], indent = [], depth = 0\<rparr>"

definition writeString :: "XMLEncoder \<Rightarrow> string \<Rightarrow> XMLEncoder" where
  "writeString e s = e\<lparr>writer := writer e @ s\<rparr>"

definition writeIndent :: "XMLEncoder \<Rightarrow> XMLEncoder" where
  "writeIndent e =
     (if indent e = [] then e
      else writeString e (CHR 0x0A # concat (replicate (depth e) (indent e))))"

definition xml_Header :: string where
  "xml_Header = ''<?xml version='' @ [CHR 0x22] @ ''1.0'' @ [CHR 0x22] @ '' encoding=''
     @ [CHR 0x22] @ ''UTF-8'' @ [CHR 0x22] @ ''?>'' @ [CHR 0x0A]"

text \<open>
  \<open>writeBytes\<close>: the payload of a \<open>binary\<close> element in the given encoding. For base85
  the whole buffer of \<open>ascii85.MaxEncodedLen\<close> bytes is written, also past the encoded text.
\<close>

definition writeBytes :: "ext \<Rightarrow> XMLEncoder \<Rightarrow> bytes \<Rightarrow> string \<Rightarrow> error option \<times> XMLEncoder" where
  "writeBytes x e b encoding =
     (if encoding = Base16 then (None, writeString e (ToUpper (hex_EncodeToString b)))
      else if encoding = Base64 then (None, writeString e (base64_EncodeToString b))
      else if encoding = Base85 then
        (None, writeString e
           (EscapeText x (written ((length b + 3) div 4 * 5) (ascii85_Encode x b))))
      else (Some (errorString (''Unknown encoding '' @ encoding)), e))"

fun isEmptyValue :: "goval \<Rightarrow> bool" where
  "isEmptyValue (VSlice t backing n) = (n = 0)"
| "isEmptyValue (VArray t xs) = (length xs = 0)"
| "isEmptyValue (VUUID b) = (length b = 0)"
| "isEmptyValue (VMap kt et m) = (case m of None \<Rightarrow> True | Some es \<Rightarrow> length es = 0)"
| "isEmptyValue (VString s) = (length s = 0)"
| "isEmptyValue (VURL s) = (length s = 0)"
| "isEmptyValue (VBool b) = (\<not> b)"
| "isEmptyValue (VInt i) = (i = 0)"
| "isEmptyValue (VInt8 i) = (i = 0)"
| "isEmptyValue (VInt16 i) = (i = 0)"
| "isEmptyValue (VInt32 i) = (i = 0)"
| "isEmptyValue (VInt64 i) = (i = 0)"
| "isEmptyValue (VUint i) = (i = 0)"
| "isEmptyValue (VUint8 i) = (i = 0)"
| "isEmptyValue (VUint16 i) = (i = 0)"
| "isEmptyValue (VUint32 i) = (i = 0)"
| "isEmptyValue (VUint64 i) = (i = 0)"
| "isEmptyValue (VUintptr i) = (i = 0)"
| "isEmptyValue (VFloat32 f) = (f = 0 \<or> f = 2 ^ 31)"
| "isEmptyValue (VFloat64 f) = (f = 0 \<or> f = 2 ^ 63)"
| "isEmptyValue (VInterface c) = (c = None)"
| "isEmptyValue (VPointer t p) = (p = None)"
| "isEmptyValue v = False"

text \<open>The bytes of a byte slice or byte array (\<open>v.Slice(0, v.Len()).Interface().([]byte)\<close>).\<close>

fun bytes_in :: "goval \<Rightarrow> bytes" where
  "bytes_in (VSlice t backing n) = map byte_of (take n backing)"
| "bytes_in (VArray t xs) = map byte_of xs"
| "bytes_in (VUUID b) = b"
| "bytes_in v = []"

fun elements :: "goval \<Rightarrow> goval list" where
  "elements (VSlice t backing n) = take n backing"
| "elements (VArray t xs) = xs"
| "elements (VUUID b) = map (\<lambda>c. VUint8 (of_char c)) b"
| "elements v = []"

fun entries :: "goval \<Rightarrow> (string \<times> goval) list" where
  "entries (VMap kt et (Some es)) = es"
| "entries v = []"

text \<open>The integer a value of an integer kind holds, signed or unsigned.\<close>

fun Value_Int :: "goval \<Rightarrow> int" where
  "Value_Int (VInt i) = sint i"
| "Value_Int (VInt8 i) = sint i"
| "Value_Int (VInt16 i) = sint i"
| "Value_Int (VInt32 i) = sint i"
| "Value_Int (VUint i) = uint i"
| "Value_Int (VUint8 i) = uint i"
| "Value_Int (VUint16 i) = uint i"
| "Value_Int (VUint32 i) = uint i"
| "Value_Int v = 0"

fun Value_Float :: "ext \<Rightarrow> goval \<Rightarrow> 64 word" where
  "Value_Float x (VFloat32 f) = float64_of_float32 x f"
| "Value_Float x (VFloat64 f) = f"
| "Value_Float x v = 0"

fun Value_String :: "goval \<Rightarrow> string" where
  "Value_String (VString s) = s"
| "Value_String (VURL s) = s"
| "Value_String v = []"

fun Value_Bool :: "goval \<Rightarrow> bool" where
  "Value_Bool (VBool b) = b"
| "Value_Bool v = False"

text \<open>
  \<open>marshalValue\<close> recurses through the fields, entries and elements of a value; as in the
  decoder the loops take the function \<open>rec\<close> they call for a nested value, and the
  recursion is bounded by fuel. Go iterates over the field map and over map keys in no
  fixed order; the model takes the order of declaration, which is the only order when
  there is one entry.
\<close>

type_synonym mresult = "(outcome \<times> XMLEncoder) option"

type_synonym marshalfn = "XMLEncoder \<Rightarrow> access \<Rightarrow> goval option \<Rightarrow> tag option \<Rightarrow> mresult"

definition field_entries :: "goval \<Rightarrow> (string \<times> nat \<times> tag) list" where
  "field_entries v =
     map (\<lambda>(i, f). (Name (field_tag f), i, field_tag f))
       (filter (\<lambda>(i, f). cachedFieldsForType (type_of v) (Name (field_tag f))
                            = Some (i, field_tag f))
          (enumerate 0 (struct_fields v)))"

definition write_key :: "XMLEncoder \<Rightarrow> string \<Rightarrow> XMLEncoder" where
  "write_key e key = writeString (writeString (writeString e ''<key>'') key) ''</key>''"

fun marshal_fields :: "(string \<times> nat \<times> tag) list \<Rightarrow> marshalfn \<Rightarrow> XMLEncoder \<Rightarrow> access
    \<Rightarrow> goval \<Rightarrow> mresult" where
  "marshal_fields [] rec e acc v = Some (Done, e)"
| "marshal_fields ((key, i, tg) # rest) rec e acc v =
     (if Omit tg then marshal_fields rest rec e acc v
      else if field_access acc (field_name v i) = ReadOnly then marshal_fields rest rec e acc v
      else if OmitEmpty tg \<and> isEmptyValue (get_field v i)
      then marshal_fields rest rec e acc v
      else
        (case rec (write_key (writeIndent e) key) (field_access acc (field_name v i))
                (Some (get_field v i)) (Some tg) of
           None \<Rightarrow> None
         | Some (out, e1) \<Rightarrow>
             if out = Done then marshal_fields rest rec e1 acc v else Some (out, e1)))"

fun marshal_entries :: "(string \<times> goval) list \<Rightarrow> marshalfn \<Rightarrow> ext \<Rightarrow> XMLEncoder \<Rightarrow> mresult" where
  "marshal_entries [] rec x e = Some (Done, e)"
| "marshal_entries ((key, subv) # rest) rec x e =
     (case rec (write_key (writeIndent e) (EscapeText x key)) Unaddressable (Some subv) None of
        None \<Rightarrow> None
      | Some (out, e1) \<Rightarrow>
          if out = Done then marshal_entries rest rec x e1 else Some (out, e1))"

fun marshal_elements :: "goval list \<Rightarrow> marshalfn \<Rightarrow> XMLEncoder \<Rightarrow> access \<Rightarrow> mresult" where
  "marshal_elements [] rec e acc = Some (Done, e)"
| "marshal_elements (subv # rest) rec e acc =
     (case rec e acc (Some subv) None of
        None \<Rightarrow> None
      | Some (out, e1) \<Rightarrow>
          if out = Done then marshal_elements rest rec e1 acc else Some (out, e1))"

text \<open>After a loop: write the closing part if the loop ended without error.\<close>

definition and_then :: "mresult \<Rightarrow> (XMLEncoder \<Rightarrow> XMLEncoder) \<Rightarrow> mresult" where
  "and_then r f =
     (case r of
        None \<Rightarrow> None
      | Some (out, e) \<Rightarrow> if out = Done then Some (Done, f e) else Some (out, e))"

text \<open>The byte-sequence branch: a \<open>binary\<close> element in the field's encoding, base16 by default.\<close>

definition binary_open :: "string \<Rightarrow> string" where
  "binary_open encoding =
     (if encoding = Base16 then ''<binary>''
      else ''<binary encoding='' @ [CHR 0x22] @ encoding @ [CHR 0x22] @ ''>'')"

definition effective_encoding :: "tag option \<Rightarrow> string" where
  "effective_encoding info =
     (case info of
        None \<Rightarrow> Base16
      | Some tg \<Rightarrow> if Encoding tg \<noteq> [] then Encoding tg else Base16)"

definition marshalBinary :: "ext \<Rightarrow> XMLEncoder \<Rightarrow> access \<Rightarrow> goval \<Rightarrow> tag option \<Rightarrow> mresult" where
  "marshalBinary x e acc v info =
     (if Value_Kind v = reflect_Array \<and> acc \<noteq> Settable
      then Some (Panicked ''reflect.Value.Slice: slice of unaddressable array'',
                 writeString (writeIndent e) (binary_open (effective_encoding info)))
      else
        (case writeBytes x (writeString (writeIndent e) (binary_open (effective_encoding info)))
                (bytes_in v) (effective_encoding info) of
           (Some err, e1) \<Rightarrow> Some (Failed err, e1)
         | (None, e1) \<Rightarrow> Some (Done, writeString e1 ''</binary>'')))"

definition open_map :: "XMLEncoder \<Rightarrow> XMLEncoder" where
  "open_map e = (writeString (writeIndent e) ''<map>'')\<lparr>depth := depth e + 1\<rparr>"

definition scalar_element :: "XMLEncoder \<Rightarrow> string \<Rightarrow> string \<Rightarrow> XMLEncoder" where
  "scalar_element e name s =
     writeString (writeString (writeString (writeIndent e) (''<'' @ name @ ''>'')) s)
       (''</'' @ name @ ''>'')"

text \<open>
  The \<open>switch v.Kind()\<close> of \<open>marshalValue\<close>. Its default case is reached only by kinds
  int64, uint64, uintptr, pointer and the kinds of \<open>TOther\<close>: UUID is an array, URL a
  string, \<open>url.URL\<close> and \<open>time.Time\<close> are structs, so the type switch there always ends in
  \<open>MarshalTypeError\<close>.
\<close>

definition marshal_kind :: "marshalfn \<Rightarrow> ext \<Rightarrow> XMLEncoder \<Rightarrow> access \<Rightarrow> goval \<Rightarrow> tag option
    \<Rightarrow> mresult" where
  "marshal_kind rec x e acc v info =
     (if Value_Kind v = reflect_Interface then
        rec e Unaddressable (case v of VInterface c \<Rightarrow> c | _ \<Rightarrow> None) None
      else if Value_Kind v = reflect_Struct then
        and_then (marshal_fields (field_entries v) rec (open_map e) acc v)
          (\<lambda>e1. writeString (writeIndent (e1\<lparr>depth := depth e1 - 1\<rparr>)) ''</map>'')
      else if Value_Kind v = reflect_Map then
        and_then (marshal_entries (entries v) rec x (open_map e))
          (\<lambda>e1. (writeString (writeIndent e1) ''</map>'')\<lparr>depth := depth e1 - 1\<rparr>)
      else if Value_Kind v = reflect_Array \<or> Value_Kind v = reflect_Slice then
        (if Elem_Kind v = reflect_Uint8 then marshalBinary x e acc v info
         else
           and_then (marshal_elements (elements v) rec
               ((writeString (writeIndent e) ''<array>'')\<lparr>depth := depth e + 1\<rparr>)
               (index_access acc v))
             (\<lambda>e1. (writeString e1 ''</array>'')\<lparr>depth := depth e1 - 1\<rparr>))
      else if Value_Kind v = reflect_String then
        (case v of
           VURL s \<Rightarrow> Some (Done, scalar_element e ''uri'' (EscapeText x s))
         | _ \<Rightarrow> Some (Done, scalar_element e ''string'' (EscapeText x (Value_String v))))
      else if Value_Kind v = reflect_Int \<or> Value_Kind v = reflect_Int8
              \<or> Value_Kind v = reflect_Int16 \<or> Value_Kind v = reflect_Int32
              \<or> Value_Kind v = reflect_Uint \<or> Value_Kind v = reflect_Uint8
              \<or> Value_Kind v = reflect_Uint16 \<or> Value_Kind v = reflect_Uint32
      then Some (Done, scalar_element e ''integer'' (FormatInt (Value_Int v)))
      else if is_float_kind (Value_Kind v)
      then Some (Done, scalar_element e ''real'' (Sprintf_f x (Value_Float x v)))
      else if Value_Kind v = reflect_Bool
      then Some (Done, scalar_element e ''boolean'' (if Value_Bool v then ''1'' else ''0''))
      else Some (Failed (MarshalTypeError (type_of v)), e))"

definition marshal_hook :: "ext \<Rightarrow> goval \<Rightarrow> (ScalarType \<times> string \<times> error option) option" where
  "marshal_hook x v =
     (case v of
        VInterface None \<Rightarrow> None
      | VInterface (Some w) \<Rightarrow> TextMarshaler x w
      | _ \<Rightarrow> TextMarshaler x v)"

definition omit_empty :: "tag option \<Rightarrow> goval \<Rightarrow> bool" where
  "omit_empty info v =
     (case info of None \<Rightarrow> False | Some tg \<Rightarrow> OmitEmpty tg \<and> isEmptyValue v)"

primrec marshalValue :: "nat \<Rightarrow> ext \<Rightarrow> XMLEncoder \<Rightarrow> access \<Rightarrow> goval option \<Rightarrow> tag option
    \<Rightarrow> mresult" where
  "marshalValue 0 x e acc vo info = None"
| "marshalValue (Suc n) x e acc vo info =
     (case vo of
        None \<Rightarrow> Some (Panicked ''reflect.Value.CanInterface on zero Value'', e)
      | Some v \<Rightarrow>
          if acc = ReadOnly then Some (Done, e)
          else if omit_empty info v then Some (Done, e)
          else
            (case marshal_hook x v of
               Some (ty, val, err) \<Rightarrow>
                 (case err of
                    Some er \<Rightarrow> Some (Failed er, e)
                  | None \<Rightarrow> Some (Done, scalar_element e (ScalarType_String ty) val))
             | None \<Rightarrow>
                 (case v of
                    VPointer t p \<Rightarrow>
                      (case p of
                         None \<Rightarrow> Some (Done, writeString (writeIndent e) ''<undef />'')
                       | Some w \<Rightarrow> marshal_kind (marshalValue n x) x e Settable w info)
                  | _ \<Rightarrow> marshal_kind (marshalValue n x) x e acc v info)))"

definition Encode :: "nat \<Rightarrow> ext \<Rightarrow> XMLEncoder \<Rightarrow> goval option \<Rightarrow> mresult" where
  "Encode n x e v =
     and_then
       (marshalValue n x
          ((writeString (writeString e xml_Header) ''<llsd>'')\<lparr>depth := depth e + 1\<rparr>)
          Unaddressable v None)
       (\<lambda>e1. writeString (writeIndent (e1\<lparr>depth := depth e1 - 1\<rparr>)) ''</llsd>'')"

text \<open>\<open>MarshalXML\<close>: the bytes written, or the error (or panic) of \<open>Encode\<close>.\<close>

definition MarshalXML :: "nat \<Rightarrow> ext \<Rightarrow> goval option \<Rightarrow> (outcome + string) option" where
  "MarshalXML n x v =
     (case Encode n x NewXMLEncoder v of
        None \<Rightarrow> None
      | Some (out, e) \<Rightarrow> Some (if out = Done then Inr (writer e) else Inl out))"

section \<open>Settings of the examples\<close>

text \<open>An environment in which no destination and no source value has a custom hook.\<close>

definition no_hooks :: "ext \<Rightarrow> ext" where
  "no_hooks x = x\<lparr>TextUnmarshaler := (\<lambda>v. None), BinaryUnmarshaler := (\<lambda>v. None),
     TextMarshaler := (\<lambda>v. None)\<rparr>"

text \<open>The outcome of a call and the destination it leaves, without the unmarshaler.\<close>

definition outcome_of :: "result \<Rightarrow> (outcome \<times> goval) option" where
  "outcome_of r = (case r of None \<Rightarrow> None | Some (out, v, u) \<Rightarrow> Some (out, v))"

text \<open>
  The parser tokens of the document
  \<open><llsd><map><key>A</key><binary>FFFFFFFD</binary></map></llsd>\<close>, with their end offsets.
\<close>

definition S2_document :: xmlinput where
  "S2_document =
     [(StartElement ''llsd'' [], 6), (StartElement ''map'' [], 11),
      (StartElement ''key'' [], 16), (CharData ''A'', 17), (EndElement ''key'', 23),
      (StartElement ''binary'' [], 31), (CharData ''FFFFFFFD'', 39),
      (EndElement ''binary'', 48), (EndElement ''map'', 54), (EndElement ''llsd'', 61)]"

text \<open>
  The parser tokens of
  \<open><llsd><map><key>X</key><map><key>A</key><string>inner</string></map><key>A</key><string>outer</string></map></llsd>\<close>:
  an unknown key \<open>X\<close> whose value is a map, before the known key \<open>A\<close>.
\<close>

definition nested_unknown_document :: xmlinput where
  "nested_unknown_document =
     [(StartElement ''llsd'' [], 6), (StartElement ''map'' [], 11),
      (StartElement ''key'' [], 16), (CharData ''X'', 17), (EndElement ''key'', 23),
      (StartElement ''map'' [], 28),
      (StartElement ''key'' [], 33), (CharData ''A'', 34), (EndElement ''key'', 40),
      (StartElement ''string'' [], 48), (CharData ''inner'', 53), (EndElement ''string'', 62),
      (EndElement ''map'', 68),
      (StartElement ''key'' [], 73), (CharData ''A'', 74), (EndElement ''key'', 80),
      (StartElement ''string'' [], 88), (CharData ''outer'', 93), (EndElement ''string'', 102),
      (EndElement ''map'', 108), (EndElement ''llsd'', 115)]"

text \<open>The same document as the tokens a scanner yields for it (without the document pair).\<close>

definition nested_unknown_tokens :: "(error + Token) list" where
  "nested_unknown_tokens =
     [Inr MapStart, Inr (Key ''X''), Inr MapStart, Inr (Key ''A''),
      Inr (mkScalar String ''inner''), Inr MapEnd, Inr (Key ''A''),
      Inr (mkScalar String ''outer''), Inr MapEnd]"

text \<open>A pointer to a record with one field \<open>A\<close>, as a destination or a source.\<close>

definition record_A :: "string \<Rightarrow> goval \<Rightarrow> goval" where
  "record_A llsd_tag a =
     VPointer (TStruct [(''A'', llsd_tag, [], type_of a)])
       (Some (VStruct [(''A'', llsd_tag, [], a)]))"

text \<open>
  A destination with a nil pointer replaced by a pointer to the zero value of its element
  type, as the pointer prologue of \<open>scalar\<close> leaves it.
\<close>

fun allocated :: "goval \<Rightarrow> goval" where
  "allocated (VPointer t None) = VPointer t (Some (zero t))"
| "allocated v = v"

section \<open>Properties\<close>

subsection \<open>Evaluation rules\<close>

lemma of_char_char_of: "(of_char (char_of (n::nat)) :: 'a::len word) = of_nat (n mod 256)"
  by (metis of_nat_of_char of_char_of)

lemmas value_numeral =
  Unmarshaler_value.simps(2) [where n = "pred_numeral k", folded numeral_eq_Suc] for k
lemmas struct_loop_numeral =
  struct_loop.simps(2) [where n = "pred_numeral k", folded numeral_eq_Suc] for k
lemmas map_loop_numeral =
  map_loop.simps(2) [where n = "pred_numeral k", folded numeral_eq_Suc] for k
lemmas seq_loop_numeral =
  seq_loop.simps(2) [where n = "pred_numeral k", folded numeral_eq_Suc] for k
lemmas marshalValue_numeral =
  marshalValue.simps(2) [where n = "pred_numeral k", folded numeral_eq_Suc] for k

lemmas fuel =
  value_numeral struct_loop_numeral map_loop_numeral seq_loop_numeral marshalValue_numeral

lemmas engine_defs =
  UnmarshalBinary_def UnmarshalXML_def Unmarshal_def NewBinaryDecoder_def NewXMLDecoder_def
  newMockDecoder_def next_def token_def Value_Kind_def is_Scalar_def mkScalar_def scalar_def
  hook_def no_hooks_def outcome_of_def object_def array_def deref_def rewrap_def
  in_pointer_def struct_step_def map_step_def seq_step_def some_value_def unexpected_def
  invalidLLSD_def objectError_def typeError_def store_def Set_def put_field_def
  put_index_def set_field_def get_field_def field_name_def field_access_def is_exported_def
  elem_access_def cachedFieldsForType_def fieldsForType_def field_tag_def parseTag_def
  record_A_def

lemmas xml_defs =
  charData_def xml_Token_def scalarTypes_def attr_map_def bytes_of_def

lemmas encoder_defs =
  MarshalXML_def Encode_def NewXMLEncoder_def and_then_def marshal_kind_def marshal_hook_def
  omit_empty_def no_hooks_def Value_Kind_def field_entries_def cachedFieldsForType_def
  fieldsForType_def field_tag_def parseTag_def open_map_def writeString_def writeIndent_def
  write_key_def field_access_def field_name_def get_field_def is_exported_def
  marshalBinary_def effective_encoding_def binary_open_def writeBytes_def bytes_value_def
  scalar_element_def Base16_def Base64_def Base85_def tag_option_def Let_def record_A_def

subsection \<open>Hexadecimal and base64 payloads\<close>









subsection \<open>A result does not depend on the fuel left\<close>

text \<open>
  Fuel only bounds the recursion: once a call returns a result, more fuel gives the same
  result. The loops are monotone in their fuel and in the function for nested values.
\<close>

lemma struct_loop_mono:
  assumes val: "\<And>u a vo r. val u a vo = Some r \<Longrightarrow> val' u a vo = Some r"
  shows "struct_loop n val x u acc v = Some r \<Longrightarrow> n \<le> m
    \<Longrightarrow> struct_loop m val' x u acc v = Some r"
proof (induction n arbitrary: m u v r)
  case 0
  then show ?case by simp
next
  case (Suc n)
  then obtain m' where m: "m = Suc m'" and le: "n \<le> m'"
    by (cases m) auto
  show ?case
  proof (cases "struct_step x u v")
    case (Stop out u1)
    with Suc.prems m show ?thesis by simp
  next
    case (Skip u2)
    with Suc.prems m le Suc.IH show ?thesis by simp
  next
    case (Into i u2)
    show ?thesis
    proof (cases "val u2 (field_access acc (field_name v i)) (Some (get_field v i))")
      case None
      with Suc.prems Into show ?thesis by simp
    next
      case (Some res)
      obtain out wo u3 where res: "res = (out, wo, u3)"
        by (cases res) auto
      from val [OF Some]
      have "val' u2 (field_access acc (field_name v i)) (Some (get_field v i)) = Some res" .
      with Suc.prems Into Some res m le Suc.IH show ?thesis
        by (simp split: if_splits)
    qed
  qed
qed

lemma map_loop_mono:
  assumes val: "\<And>u a vo r. val u a vo = Some r \<Longrightarrow> val' u a vo = Some r"
  shows "map_loop n val u acc v = Some r \<Longrightarrow> n \<le> m \<Longrightarrow> map_loop m val' u acc v = Some r"
proof (induction n arbitrary: m u v r)
  case 0
  then show ?case by simp
next
  case (Suc n)
  then obtain m' where m: "m = Suc m'" and le: "n \<le> m'"
    by (cases m) auto
  show ?case
  proof (cases "map_step u")
    case (Stop out u1)
    with Suc.prems m show ?thesis by simp
  next
    case (Skip u2)
    with Suc.prems m le Suc.IH show ?thesis by simp
  next
    case (Into key u2)
    show ?thesis
    proof (cases "val u2 Settable (Some (zero (map_elem_type v)))")
      case None
      with Suc.prems Into show ?thesis by simp
    next
      case (Some res)
      obtain out wo u3 where res: "res = (out, wo, u3)"
        by (cases res) auto
      from val [OF Some]
      have "val' u2 Settable (Some (zero (map_elem_type v))) = Some res" .
      with Suc.prems Into Some res m le Suc.IH show ?thesis
        by (simp split: if_splits sum.splits)
    qed
  qed
qed

lemma seq_loop_mono:
  assumes val: "\<And>u a vo r. val u a vo = Some r \<Longrightarrow> val' u a vo = Some r"
  shows "seq_loop n val u acc v i = Some r \<Longrightarrow> n \<le> m
    \<Longrightarrow> seq_loop m val' u acc v i = Some r"
proof (induction n arbitrary: m u v i r)
  case 0
  then show ?case by simp
next
  case (Suc n)
  then obtain m' where m: "m = Suc m'" and le: "n \<le> m'"
    by (cases m) auto
  show ?case
  proof (cases "seq_step u acc v i")
    case (Stop out u1)
    with Suc.prems m show ?thesis by simp
  next
    case (Skip u2)
    with Suc.prems m le Suc.IH show ?thesis by simp
  next
    case (Into v1 u1)
    show ?thesis
    proof (cases "i < Len v1")
      case True
      show ?thesis
      proof (cases "val u1 (index_access acc v1) (Some (Index v1 i))")
        case None
        with Suc.prems Into True show ?thesis by simp
      next
        case (Some res)
        obtain out wo u2 where res: "res = (out, wo, u2)"
          by (cases res) auto
        from val [OF Some]
        have "val' u1 (index_access acc v1) (Some (Index v1 i)) = Some res" .
        with Suc.prems Into True Some res m le Suc.IH show ?thesis
          by (simp split: if_splits)
      qed
    next
      case False
      show ?thesis
      proof (cases "val u1 Settable None")
        case None
        with Suc.prems Into False show ?thesis by simp
      next
        case (Some res)
        obtain out wo u2 where res: "res = (out, wo, u2)"
          by (cases res) auto
        from val [OF Some] have "val' u1 Settable None = Some res" .
        with Suc.prems Into False Some res m le Suc.IH show ?thesis
          by (simp split: if_splits)
      qed
    qed
  qed
qed

lemma rewrap_Some: "rewrap v a = Some r \<Longrightarrow> \<exists>r0. a = Some r0"
  by (cases a) (auto simp: rewrap_def in_pointer_def split: goval.splits)

lemma objectError_Some: "\<exists>r. objectError u what w = Some r"
  by (simp add: objectError_def)

lemma object_mono:
  assumes val: "\<And>u a vo r. val u a vo = Some r \<Longrightarrow> val' u a vo = Some r"
    and res: "object n val x u acc v = Some r" and le: "n \<le> m"
  shows "object m val' x u acc v = Some r"
proof (cases "deref acc v")
  case (Inl p)
  with res show ?thesis by (simp add: object_def)
next
  case (Inr aw)
  obtain acc1 w where aw: "aw = (acc1, w)"
    by (cases aw) auto
  let ?body = "\<lambda>k f. if Value_Kind w = reflect_Struct then struct_loop k f x u acc1 w
      else if Value_Kind w = reflect_Map then
        (if map_key_kind w = reflect_String then map_loop k f u acc1 w
         else objectError u ''map '' w)
      else objectError u ''object'' w"
  from res Inr aw have r: "rewrap v (?body n val) = Some r"
    by (simp add: object_def)
  then obtain r0 where r0: "?body n val = Some r0"
    using rewrap_Some by blast
  have smono: "struct_loop m val' x u0 a0 v0 = Some r1"
    if "struct_loop n val x u0 a0 v0 = Some r1" for u0 a0 v0 r1
    using val that le by (rule struct_loop_mono [where val = val])
  have mmono: "map_loop m val' u0 a0 v0 = Some r1"
    if "map_loop n val u0 a0 v0 = Some r1" for u0 a0 v0 r1
    using val that le by (rule map_loop_mono [where val = val])
  have "?body m val' = Some r0"
    using r0 smono mmono by (cases r0) (auto split: if_splits)
  with r r0 Inr aw show ?thesis
    by (simp add: object_def)
qed

lemma array_mono:
  assumes val: "\<And>u a vo r. val u a vo = Some r \<Longrightarrow> val' u a vo = Some r"
    and res: "array n val u acc v = Some r" and le: "n \<le> m"
  shows "array m val' u acc v = Some r"
proof (cases "deref acc v")
  case (Inl p)
  with res show ?thesis by (simp add: array_def)
next
  case (Inr aw)
  obtain acc1 w where aw: "aw = (acc1, w)"
    by (cases aw) auto
  let ?any = "VInterface (Some (VSlice TInterface [] 0))"
  let ?body = "\<lambda>k f. if Value_Kind w = reflect_Interface then
        (if acc1 = Settable then
           (case seq_loop k f u Unaddressable (VSlice TInterface [] 0) 0 of
              None \<Rightarrow> None
            | Some (out, newv, u1) \<Rightarrow>
                if out = Done then seq_loop k f u1 acc1 ?any 0 else Some (out, ?any, u1))
         else Some (Panicked ''reflect: value is not settable'', w, u))
      else if Value_Kind w = reflect_Slice \<or> Value_Kind w = reflect_Array
      then seq_loop k f u acc1 w 0
      else objectError u ''array'' w"
  from res Inr aw have r: "rewrap v (?body n val) = Some r"
    by (simp add: array_def)
  then obtain r0 where r0: "?body n val = Some r0"
    using rewrap_Some by blast
  have mono: "seq_loop m val' u0 a0 v0 i0 = Some r1"
    if "seq_loop n val u0 a0 v0 i0 = Some r1" for u0 a0 v0 i0 r1
    using val that le by (rule seq_loop_mono [where val = val])
  have "?body m val' = Some r0"
    using r0 mono by (cases r0) (auto split: if_splits option.splits)
  with r r0 Inr aw show ?thesis
    by (simp add: array_def)
qed

lemma some_value_Some: "some_value a = Some r \<Longrightarrow> \<exists>r0. a = Some r0"
  by (cases a) (auto simp: some_value_def)

lemma Unmarshaler_value_mono:
  "Unmarshaler_value n x u acc vo = Some r \<Longrightarrow> n \<le> m
    \<Longrightarrow> Unmarshaler_value m x u acc vo = Some r"
proof (induction n arbitrary: m u acc vo r)
  case 0
  then show ?case by simp
next
  case (Suc n)
  then obtain m' where m: "m = Suc m'" and le: "n \<le> m'"
    by (cases m) auto
  have val: "\<And>u a vo r. Unmarshaler_value n x u a vo = Some r
      \<Longrightarrow> Unmarshaler_value m' x u a vo = Some r"
    using Suc.IH le by blast
  show ?case
  proof (cases vo)
    case None
    with Suc.prems m show ?thesis by simp
  next
    case (Some v)
    show ?thesis
    proof (cases "tok u = MapStart")
      case True
      with Suc.prems Some obtain r0
        where "object n (Unmarshaler_value n x) x u acc v = Some r0"
        using some_value_Some by fastforce
      from this object_mono [OF val this le] Suc.prems Some True m show ?thesis
        by simp
    next
      case False
      show ?thesis
      proof (cases "tok u = ArrayStart")
        case True
        with Suc.prems Some False obtain r0
          where "array n (Unmarshaler_value n x) u acc v = Some r0"
          using some_value_Some by fastforce
        from this array_mono [OF val this le] Suc.prems Some True False m show ?thesis
          by simp
      next
        case notarray: False
        with Suc.prems Some False m show ?thesis by simp
      qed
    qed
  qed
qed

lemma Unmarshal_mono:
  assumes "Unmarshal n x u v = Some r" and "n \<le> m"
  shows "Unmarshal m x u v = Some r"
proof (cases "Value_Kind v \<noteq> reflect_Pointer")
  case True
  with assms show ?thesis by (simp add: Unmarshal_def)
next
  case False
  show ?thesis
  proof (cases "next u")
    case (Pair err u1)
    show ?thesis
    proof (cases err)
      case (Some e)
      with assms False Pair show ?thesis by (simp add: Unmarshal_def)
    next
      case None
      with assms False Pair obtain r0
        where r0: "Unmarshaler_value n x u1 Unaddressable (Some v) = Some r0"
        by (auto simp: Unmarshal_def split: option.splits)
      from Unmarshaler_value_mono [OF r0 assms(2)] r0 assms False Pair None show ?thesis
        by (simp add: Unmarshal_def)
    qed
  qed
qed

text \<open>The same for the encoder.\<close>

lemma marshal_fields_mono:
  assumes rec: "\<And>e a vo i r. rec e a vo i = Some r \<Longrightarrow> rec' e a vo i = Some r"
  shows "marshal_fields fs rec e acc v = Some r \<Longrightarrow> marshal_fields fs rec' e acc v = Some r"
proof (induction fs arbitrary: e r)
  case Nil
  then show ?case by simp
next
  case (Cons f fs)
  obtain key i tg where f: "f = (key, i, tg)"
    by (cases f) auto
  let ?call = "\<lambda>g. g (write_key (writeIndent e) key) (field_access acc (field_name v i))
      (Some (get_field v i)) (Some tg)"
  let ?skip = "Omit tg \<or> field_access acc (field_name v i) = ReadOnly
      \<or> (OmitEmpty tg \<and> isEmptyValue (get_field v i))"
  show ?case
  proof (cases ?skip)
    case True
    with Cons.prems f have "marshal_fields fs rec e acc v = Some r"
      by (auto split: if_splits)
    then have "marshal_fields fs rec' e acc v = Some r"
      by (rule Cons.IH)
    with True f show ?thesis
      by auto
  next
    case False
    then have run: "\<not> Omit tg" "field_access acc (field_name v i) \<noteq> ReadOnly"
      "\<not> (OmitEmpty tg \<and> isEmptyValue (get_field v i))"
      by auto
    show ?thesis
    proof (cases "?call rec")
      case None
      with Cons.prems f run show ?thesis by simp
    next
      case (Some res)
      obtain out e1 where res: "res = (out, e1)"
        by (cases res) auto
      from rec [OF Some] have call': "?call rec' = Some res" .
      show ?thesis
      proof (cases "out = Done")
        case True
        with Cons.prems f run Some res have "marshal_fields fs rec e1 acc v = Some r"
          by simp
        then have "marshal_fields fs rec' e1 acc v = Some r"
          by (rule Cons.IH)
        with True f run call' res show ?thesis
          by auto
      next
        case out: False
        with Cons.prems f run Some res have "r = (out, e1)"
          by simp
        with out f run call' res show ?thesis
          by auto
      qed
    qed
  qed
qed

lemma marshal_entries_mono:
  assumes rec: "\<And>e a vo i r. rec e a vo i = Some r \<Longrightarrow> rec' e a vo i = Some r"
  shows "marshal_entries es rec x e = Some r \<Longrightarrow> marshal_entries es rec' x e = Some r"
proof (induction es arbitrary: e r)
  case Nil
  then show ?case by simp
next
  case (Cons kv es)
  obtain key subv where kv: "kv = (key, subv)"
    by (cases kv) auto
  let ?call = "\<lambda>g. g (write_key (writeIndent e) (EscapeText x key)) Unaddressable
      (Some subv) None"
  show ?case
  proof (cases "?call rec")
    case None
    with Cons kv show ?thesis by simp
  next
    case (Some res)
    obtain out e1 where res: "res = (out, e1)"
      by (cases res) auto
    from rec [OF Some] have "?call rec' = Some res" .
    with Cons kv Some res show ?thesis
      by (simp split: if_splits)
  qed
qed

lemma marshal_elements_mono:
  assumes rec: "\<And>e a vo i r. rec e a vo i = Some r \<Longrightarrow> rec' e a vo i = Some r"
  shows "marshal_elements vs rec e acc = Some r \<Longrightarrow> marshal_elements vs rec' e acc = Some r"
proof (induction vs arbitrary: e r)
  case Nil
  then show ?case by simp
next
  case (Cons subv vs)
  show ?case
  proof (cases "rec e acc (Some subv) None")
    case None
    with Cons show ?thesis by simp
  next
    case (Some res)
    obtain out e1 where res: "res = (out, e1)"
      by (cases res) auto
    from rec [OF Some] have "rec' e acc (Some subv) None = Some res" .
    with Cons Some res show ?thesis
      by (simp split: if_splits)
  qed
qed

lemma and_then_mono:
  assumes "and_then a f = Some r" and "\<And>r0. a = Some r0 \<Longrightarrow> b = Some r0"
  shows "and_then b f = Some r"
  using assms by (cases a) (auto simp: and_then_def)

lemma marshal_kind_mono:
  assumes rec: "\<And>e a vo i r. rec e a vo i = Some r \<Longrightarrow> rec' e a vo i = Some r"
    and res: "marshal_kind rec x e acc v info = Some r"
  shows "marshal_kind rec' x e acc v info = Some r"
proof -
  have fields: "and_then (marshal_fields fs rec' e0 a0 v0) f = Some r1"
    if "and_then (marshal_fields fs rec e0 a0 v0) f = Some r1" for fs e0 a0 v0 f r1
    using that by (rule and_then_mono) (rule marshal_fields_mono [OF rec])
  have entries: "and_then (marshal_entries es rec' x e0) f = Some r1"
    if "and_then (marshal_entries es rec x e0) f = Some r1" for es e0 f r1
    using that by (rule and_then_mono) (rule marshal_entries_mono [OF rec])
  have elements: "and_then (marshal_elements vs rec' e0 a0) f = Some r1"
    if "and_then (marshal_elements vs rec e0 a0) f = Some r1" for vs e0 a0 f r1
    using that by (rule and_then_mono) (rule marshal_elements_mono [OF rec])
  from res show ?thesis
    unfolding marshal_kind_def
    by (auto split: if_splits dest: fields entries elements rec)
qed

lemma marshalValue_mono:
  "marshalValue n x e acc vo info = Some r \<Longrightarrow> n \<le> m
    \<Longrightarrow> marshalValue m x e acc vo info = Some r"
proof (induction n arbitrary: m e acc vo info r)
  case 0
  then show ?case by simp
next
  case (Suc n)
  then obtain m' where m: "m = Suc m'" and le: "n \<le> m'"
    by (cases m) auto
  have rec: "\<And>e a vo i r. marshalValue n x e a vo i = Some r
      \<Longrightarrow> marshalValue m' x e a vo i = Some r"
    using Suc.IH le by blast
  have kind: "marshal_kind (marshalValue m' x) x e0 a0 v0 i0 = Some r1"
    if "marshal_kind (marshalValue n x) x e0 a0 v0 i0 = Some r1" for e0 a0 v0 i0 r1
    using rec that by (rule marshal_kind_mono)
  from Suc.prems(1) show ?case
    unfolding m marshalValue.simps
    by (auto split: option.splits if_splits goval.splits prod.splits dest: kind)
qed

lemma MarshalXML_mono:
  assumes "MarshalXML n x v = Some r" and "n \<le> m"
  shows "MarshalXML m x v = Some r"
proof -
  let ?e = "(writeString (writeString NewXMLEncoder xml_Header) ''<llsd>'')
      \<lparr>depth := depth NewXMLEncoder + 1\<rparr>"
  from assms(1) obtain r0 where r0: "Encode n x NewXMLEncoder v = Some r0"
    by (auto simp: MarshalXML_def split: option.splits)
  then obtain r1 where r1: "marshalValue n x ?e Unaddressable v None = Some r1"
    by (cases "marshalValue n x ?e Unaddressable v None") (auto simp: Encode_def and_then_def)
  from marshalValue_mono [OF r1 assms(2)] r0 r1 have "Encode m x NewXMLEncoder v = Some r0"
    by (simp add: Encode_def)
  with assms(1) r0 show ?thesis
    by (simp add: MarshalXML_def)
qed

subsection \<open>Binary booleans\<close>

text \<open>
  C1. The binary scanner turns op \<open>1\<close> into a Boolean scalar with payload \<open>[1]\<close> and op \<open>0\<close>
  into one with an empty payload, consuming only the op byte (whatever follows it). The binary decoder's
  \<open>boolean\<close> is \<open>len(b) > 1\<close>, so the payload \<open>[1]\<close> decodes to false: unmarshaling the
  one-byte document \<open>1\<close> into a bool that holds true leaves it false.
\<close>

theorem binary_boolean_one_decodes_false:
  "TokenReader_Token (BinaryScanner (CHR ''1'' # rest) off)
     = ((mkScalar Boolean [CHR 0x01], None), BinaryScanner rest (off + 1))
   \<and> TokenReader_Token (BinaryScanner (CHR ''0'' # rest) off)
     = ((mkScalar Boolean [], None), BinaryScanner rest (off + 1))
   \<and> binaryDecoder_boolean [] = Ret False None
   \<and> binaryDecoder_boolean [CHR 0x01] = Ret False None
   \<and> outcome_of (UnmarshalBinary 2 (no_hooks x) ''1'' (VPointer TBool (Some (VBool True))))
     = Some (Done, VPointer TBool (Some (VBool False)))"
  by (simp add: engine_defs fuel scalar_Boolean_def binaryDecoder_boolean_def)

subsection \<open>UUID scalars\<close>

text \<open>
  C2, as amended. For a destination without an unmarshal hook that is not reached
  through an unexported field, decoding a UUID scalar returns success and stores no
  payload: a destination that is not a nil pointer is left unchanged, and a nil pointer
  (which must be settable) becomes a pointer to the zero value of its element type.
\<close>

theorem uuid_scalar_stores_nothing:
  assumes "tok u = ScalarToken tk" and "Type tk = UUIDType" and "hook x u v = None"
    and "acc \<noteq> ReadOnly" and "acc = Settable \<or> allocated v = v"
  shows "scalar x u acc v = (Done, allocated v)"
proof (cases v)
  case (VPointer t p)
  show ?thesis
  proof (cases p)
    case None
    with VPointer assms show ?thesis by (simp add: scalar_def)
  next
    case (Some w)
    with VPointer assms show ?thesis by (simp add: scalar_def)
  qed
qed (use assms in \<open>simp_all add: scalar_def\<close>)

text \<open>
  The theorem at the library's UUID type and at a nil pointer to it, for the UUID scalar
  of the README.
\<close>

theorem uuid_scalar_stores_nothing_witness:
  "\<forall>x. scalar (no_hooks x)
          ((newMockDecoder [])\<lparr>tok := mkScalar UUIDType ''67153d5b-3659-afb4-8510-adda2c034649''\<rparr>)
          Settable (VUUID zero_UUID)
        = (Done, VUUID zero_UUID)
      \<and> scalar (no_hooks x)
          ((newMockDecoder [])\<lparr>tok := mkScalar UUIDType ''67153d5b-3659-afb4-8510-adda2c034649''\<rparr>)
          Settable (VPointer TUUID None)
        = (Done, VPointer TUUID (Some (VUUID zero_UUID)))"
  using uuid_scalar_stores_nothing [where acc = Settable and v = "VUUID zero_UUID"]
    uuid_scalar_stores_nothing [where acc = Settable and v = "VPointer TUUID None"]
  by (simp add: mkScalar_def hook_def no_hooks_def zero_UUID_def)

text \<open>
  The claim as stated (every destination without a hook is left completely unchanged) is
  false: a nil pointer destination is changed.
\<close>

theorem uuid_scalar_nil_pointer_counterexample:
  "\<not> (\<forall>x u acc v tk. tok u = ScalarToken tk \<and> Type tk = UUIDType \<and> hook x u v = None
        \<longrightarrow> scalar x u acc v = (Done, v))"
proof
  assume a: "\<forall>x u acc v tk. tok u = ScalarToken tk \<and> Type tk = UUIDType \<and> hook x u v = None
        \<longrightarrow> scalar x u acc v = (Done, v)"
  let ?u = "(newMockDecoder [])\<lparr>tok := mkScalar UUIDType []\<rparr>"
  have "scalar (no_hooks undefined) ?u Settable (VPointer TUUID None)
          = (Done, VPointer TUUID None)"
    using a by (simp add: mkScalar_def hook_def no_hooks_def)
  then show False
    by (simp add: scalar_def mkScalar_def hook_def no_hooks_def newMockDecoder_def)
qed

subsection \<open>Binary integers\<close>

text \<open>
  C3. The binary decoder's \<open>integer\<close> is \<open>int64(binary.BigEndian.Uint32(b))\<close>: it reads the
  four bytes as an unsigned value, so its result is never negative and \<open>FF FF FF FD\<close>
  decodes to 4294967293. Unmarshaling that scalar into an int32 fails with an
  UnmarshalTypeError (the value overflows), and into an int64 stores 4294967293.
\<close>

theorem binary_integer_is_unsigned:
  "(\<exists>w. binaryDecoder_integer [a, b, c, d] = Ret w None \<and> 0 \<le> sint w)
   \<and> binaryDecoder_integer [CHR 0xFF, CHR 0xFF, CHR 0xFF, CHR 0xFD] = Ret 4294967293 None
   \<and> outcome_of (UnmarshalBinary 2 (no_hooks x) [CHR ''i'', CHR 0xFF, CHR 0xFF, CHR 0xFF, CHR 0xFD]
        (VPointer TInt32 (Some (VInt32 0))))
     = Some (Failed (UnmarshalTypeError
          (''integer '' @ [CHR 0xFF, CHR 0xFF, CHR 0xFF, CHR 0xFD]) TInt32 5),
        VPointer TInt32 (Some (VInt32 0)))
   \<and> outcome_of (UnmarshalBinary 2 (no_hooks x) [CHR ''i'', CHR 0xFF, CHR 0xFF, CHR 0xFF, CHR 0xFD]
        (VPointer TInt64 (Some (VInt64 0))))
     = Some (Done, VPointer TInt64 (Some (VInt64 4294967293)))"
  by (simp add: engine_defs fuel read_def written_def scalar_Integer_def is_int_kind_def
      binaryDecoder_integer_def OverflowInt_def signed_ucast_eq bit_uint_iff)

subsection \<open>Empty payloads\<close>

text \<open>
  C4. On an empty payload the text decoder's \<open>integer\<close> returns the syntax error of
  \<open>strconv.Atoi\<close>, and the binary decoder's \<open>integer\<close> and \<open>date\<close> panic on the missing
  bytes; the other operations of both decoders return the zero value and no error.
\<close>

theorem empty_payload_integer_fails:
  "textDecoder_integer [] = Ret 0 (Some (NumError ''Atoi'' [] ''invalid syntax''))
   \<and> binaryDecoder_integer [] = Panic ''index out of range''
   \<and> binaryDecoder_date [] = Panic ''index out of range''
   \<and> textDecoder_real x [] = Ret 0 None
   \<and> textDecoder_uuid [] = Ret zero_UUID None
   \<and> textDecoder_binary x [] encoding = Ret [] None
   \<and> textDecoder_boolean [] = Ret False None
   \<and> textDecoder_date x [] = Ret (time_Unix 0 0) None
   \<and> binaryDecoder_real [] = Ret 0 None
   \<and> binaryDecoder_uuid [] = Ret zero_UUID None
   \<and> binaryDecoder_binary [] encoding = Ret [] None
   \<and> binaryDecoder_boolean [] = Ret False None"
  by (simp add: textDecoder_integer_def Atoi_def binaryDecoder_integer_def
      binaryDecoder_date_def textDecoder_real_def textDecoder_uuid_def textDecoder_binary_def
      textDecoder_boolean_def textDecoder_date_def binaryDecoder_real_def
      binaryDecoder_uuid_def binaryDecoder_binary_def binaryDecoder_boolean_def)

subsection \<open>Pairings outside the conversion matrix\<close>

text \<open>
  C5. The URI case of \<open>scalar\<close> has no switch on the destination kind: it calls
  \<open>v.Set\<close> with a URL value, which panics on an integer destination instead of returning an
  UnmarshalTypeError (the String case beside it does return one, with the label and
  payload, the destination type and the scanner offset). The document
  \<open><llsd><uri>http://x</uri></llsd>\<close> unmarshaled into an int panics.
\<close>

theorem uri_into_integer_panics:
  "scalar (no_hooks x) (u\<lparr>tok := ScalarToken \<lparr>Type = URI, Data = d, Attr = a\<rparr>\<rparr>) Settable (VInt i)
     = (Panicked ''reflect.Set: value is not assignable'', VInt i)
   \<and> scalar (no_hooks x) (u\<lparr>tok := ScalarToken \<lparr>Type = String, Data = d, Attr = a\<rparr>\<rparr>) Settable
        (VInt i)
     = (Failed (UnmarshalTypeError (''string '' @ d) TInt (TokenReader_Offset (scan u))), VInt i)
   \<and> outcome_of (UnmarshalXML 2 (no_hooks x) SkipDocument EOF
        [(StartElement ''llsd'' [], 6), (StartElement ''uri'' [], 11),
         (CharData ''http://x'', 19), (EndElement ''uri'', 25), (EndElement ''llsd'', 32)]
        (VPointer TInt (Some (VInt 0))))
     = Some (Panicked ''reflect.Set: value is not assignable'', VPointer TInt (Some (VInt 0)))"
  by (simp add: engine_defs xml_defs fuel scalar_URI_def scalar_String_def)

subsection \<open>Unknown fields\<close>

text \<open>
  C6. For an unknown key the struct loop advances by one token (\<open>u.next()\<close>) and continues.
  When the value of the unknown key is a map, only its \<open>MapStart\<close> is skipped: the keys of
  the inner map are read as keys of the record, and the inner \<open>MapEnd\<close> ends the record.
  On the document above the field \<open>A\<close> receives \<open>inner\<close>, not \<open>outer\<close>, and the call succeeds.
\<close>

theorem unknown_field_skips_one_token:
  "outcome_of (Unmarshal 9 (no_hooks x) (newMockDecoder nested_unknown_tokens)
        (record_A [] (VString [])))
     = Some (Done, record_A [] (VString ''inner''))
   \<and> outcome_of (UnmarshalXML 9 (no_hooks x) SkipDocument EOF nested_unknown_document
        (record_A [] (VString [])))
     = Some (Done, record_A [] (VString ''inner''))"
  by (simp add: engine_defs xml_defs fuel scalar_String_def nested_unknown_tokens_def
      nested_unknown_document_def)

subsection \<open>The first token\<close>

text \<open>
  C7. \<open>Unmarshal\<close> reads one token and hands it to \<open>value\<close>; it has no check for
  \<open>DocumentStart\<close>. On the token stream of TestNoStartDocument (the integer 1) the error is
  "Invalid LLSD: unexpected int", not "Invalid LLSD: missing document start."; a stream that
  starts with a scalar is decoded without any error; and a \<open>DocumentStart\<close> token itself is
  rejected as unexpected, from the mock reader and from the scanner of xml_scan.go alike.
\<close>

theorem no_document_start_check:
  "outcome_of (Unmarshal 2 (no_hooks x) (newMockDecoder [Inr (OtherToken ''int'')])
        (VPointer (TStruct []) (Some (VStruct []))))
     = Some (Failed (InvalidLLSDError ''unexpected int'' 1),
             VPointer (TStruct []) (Some (VStruct [])))
   \<and> InvalidLLSDError_Error ''unexpected int'' = ''Invalid LLSD: unexpected int''
   \<and> outcome_of (Unmarshal 2 (no_hooks x) (newMockDecoder [Inr (mkScalar String ''v'')])
        (VPointer TString (Some (VString []))))
     = Some (Done, VPointer TString (Some (VString ''v'')))
   \<and> outcome_of (Unmarshal 2 (no_hooks x)
        (newMockDecoder [Inr DocumentStart, Inr (mkScalar String ''v''), Inr DocumentEnd])
        (VPointer TString (Some (VString []))))
     = Some (Failed (InvalidLLSDError ''unexpected DocumentStart'' 1),
             VPointer TString (Some (VString [])))
   \<and> outcome_of (UnmarshalXML 5 (no_hooks x) EmitDocument EOF S2_document
        (record_A [] (VInt32 0)))
     = Some (Failed (InvalidLLSDError ''unexpected DocumentStart'' 6), record_A [] (VInt32 0))"
  by (simp add: engine_defs fuel scalar_String_def InvalidLLSDError_Error_def
      S2_document_def)

subsection \<open>Binary into int32\<close>

text \<open>
  C8. Unmarshaling \<open><llsd><map><key>A</key><binary>FFFFFFFD</binary></map></llsd>\<close> into a
  record whose field \<open>A\<close> is an int32 succeeds and sets \<open>A\<close> to -3: the text is
  base16-decoded to \<open>FF FF FF FD\<close> and its big-endian 32-bit pattern is stored. (The
  scanner is the one that skips the \<open>llsd\<close> element, which \<open>Unmarshal\<close> expects.)
\<close>

theorem binary_into_int32:
  "outcome_of (UnmarshalXML 5 (no_hooks x) SkipDocument EOF S2_document
        (record_A [] (VInt32 0)))
     = Some (Done, record_A [] (VInt32 (- 3)))
   \<and> textDecoder_binary x ''FFFFFFFD'' Base16
     = Ret [CHR 0xFF, CHR 0xFF, CHR 0xFF, CHR 0xFD] None
   \<and> sint (- 3 :: 32 word) = - 3"
  by (simp add: engine_defs xml_defs fuel S2_document_def scalar_Binary_def
      binary_encoding_def textDecoder_binary_def Base16_def fromHexChar_def
      hex_DecodedLen_def written_def with_Uint32_def of_char_char_of char_of_eq_iff)

subsection \<open>Binary elements in the XML encoder\<close>


subsection \<open>Field tags\<close>

text \<open>
  C10. parseTag maps the tag "-" (as the sole contents) to a descriptor with Omit set,
  the tag "-," to a descriptor that is not omitted and whose wire name is the literal "-",
  and the empty tag to a descriptor that is not omitted and keeps the source name. A field
  tagged "-" is left out of the encoded map; a field tagged "-," is written under the
  key "-".
\<close>

theorem parseTag_hyphen:
  "Omit (parseTag ''-'' name)
   \<and> \<not> Omit (parseTag ''-,'' name) \<and> Name (parseTag ''-,'' name) = ''-''
   \<and> \<not> Omit (parseTag '''' name) \<and> Name (parseTag '''' name) = name
   \<and> MarshalXML 3 (no_hooks x) (Some (record_A ''-'' (VString ''str'')))
     = Some (Inr (xml_Header @ ''<llsd><map></map></llsd>''))
   \<and> MarshalXML 3 (no_hooks x) (Some (record_A ''-,'' (VString ''str'')))
     = Some (Inr (xml_Header @ ''<llsd><map><key>-</key><string>'' @ EscapeText x ''str''
          @ ''</string></map></llsd>''))"
  by (simp add: encoder_defs fuel)


end
